theory Spec2Isabelle
  imports Complex_Main "HOL-Library.Product_Lexorder"
begin

section \<open>JavaScript values used by the deployment script\<close>

text \<open>
  The deployment script (the Node.js part of \<^verbatim>\<open>src/adev/src/app/core/constants/links.ts\<close>)
  decides where a build of angular.io is deployed. It reads its inputs from the process
  environment, so every input is a string or \<^verbatim>\<open>undefined\<close>; the script itself adds \<^verbatim>\<open>null\<close>
  (for "no RC branch"). Strict equality \<^verbatim>\<open>===\<close> on these values is equality of \<open>jsval\<close>.
\<close>

datatype jsval = Undefined | Null | Str string

text \<open>A value inside a template literal: \<^verbatim>\<open>`${v}`\<close>.\<close>

fun template :: "jsval \<Rightarrow> string" where
  "template Undefined = ''undefined''"
| "template Null = ''null''"
| "template (Str s) = s"

text \<open>
  The pre- and post-deploy actions are functions of the script; the planner and the
  validator only pass them on, so they are modelled by their names.
\<close>

datatype action =
  build | checkPayloadSize | testPwaScore
  | removeServiceWorker | redirectToAngularIo | testNoActiveRcDeployment

text \<open>
  A deploy target is an object; a property that is absent reads as \<^verbatim>\<open>undefined\<close>
  (\<open>Undefined\<close>, or \<open>None\<close> for the two action arrays).
\<close>

record target =
  name :: jsval
  type :: jsval
  reason :: jsval
  deployEnv :: jsval
  projectId :: jsval
  siteId :: jsval
  deployedUrl :: jsval
  preDeployActions :: "action list option"
  postDeployActions :: "action list option"

section \<open>validateDeploymentsInfo\<close>

text \<open>Each \<^verbatim>\<open>throw new Error(...)\<close> of the validator, with the data its message reports.\<close>

datatype validation_error =
  UnknownTargetType "target list"
  | MissingProperties target "string list"
  | NotSingleSkipped nat
  | NotOnePrimary nat
  | PrimaryNotFirst int
  | SecondaryDeployEnvMismatch "target list"

definition knownTargetTypes :: "jsval list" where
  "knownTargetTypes = [Str ''primary'', Str ''secondary'', Str ''skipped'']"

definition requiredPropertiesForSkipped :: "string list" where
  "requiredPropertiesForSkipped = [''name'', ''type'', ''reason'']"

definition requiredPropertiesForNonSkipped :: "string list" where
  "requiredPropertiesForNonSkipped =
     [''name'', ''type'', ''deployEnv'', ''projectId'', ''siteId'', ''deployedUrl'',
      ''preDeployActions'', ''postDeployActions'']"

text \<open>\<^verbatim>\<open>target[prop] === undefined\<close> for the property names the validator asks for.\<close>

definition propIsUndefined :: "target \<Rightarrow> string \<Rightarrow> bool" where
  "propIsUndefined t prop =
     (if prop = ''name'' then name t = Undefined
      else if prop = ''type'' then type t = Undefined
      else if prop = ''reason'' then reason t = Undefined
      else if prop = ''deployEnv'' then deployEnv t = Undefined
      else if prop = ''projectId'' then projectId t = Undefined
      else if prop = ''siteId'' then siteId t = Undefined
      else if prop = ''deployedUrl'' then deployedUrl t = Undefined
      else if prop = ''preDeployActions'' then preDeployActions t = None
      else if prop = ''postDeployActions'' then postDeployActions t = None
      else True)"

definition missingProperties :: "target \<Rightarrow> string list" where
  "missingProperties t =
     (let requiredProperties =
            (if type t = Str ''skipped'' then requiredPropertiesForSkipped
             else requiredPropertiesForNonSkipped)
      in filter (propIsUndefined t) requiredProperties)"

text \<open>The \<^verbatim>\<open>for\<close> loop over the targets: it throws at the first target that misses a property.\<close>

fun checkRequiredProperties :: "target list \<Rightarrow> validation_error + unit" where
  "checkRequiredProperties [] = Inr ()"
| "checkRequiredProperties (t # ts) =
     (if length (missingProperties t) > 0 then Inl (MissingProperties t (missingProperties t))
      else checkRequiredProperties ts)"

text \<open>
  \<^verbatim>\<open>Array.prototype.indexOf\<close>: the first index of the element, or \<open>-1\<close>. JavaScript compares
  objects by identity and the model compares records by value; where the validator calls
  \<^verbatim>\<open>indexOf\<close> the list holds exactly one target of type \<^verbatim>\<open>primary\<close>, so no other element is equal
  to it and both give the same index.
\<close>

fun indexOf :: "'a list \<Rightarrow> 'a \<Rightarrow> int" where
  "indexOf [] x = -1"
| "indexOf (y # ys) x =
     (if y = x then 0 else (let i = indexOf ys x in if i < 0 then -1 else i + 1))"

definition validateDeploymentsInfo :: "target list \<Rightarrow> validation_error + unit" where
  "validateDeploymentsInfo deploymentsList =
     (let primaryTargets = filter (\<lambda>t. type t = Str ''primary'') deploymentsList;
          secondaryTargets = filter (\<lambda>t. type t = Str ''secondary'') deploymentsList;
          skippedTargets = filter (\<lambda>t. type t = Str ''skipped'') deploymentsList;
          otherTargets = filter (\<lambda>t. type t \<notin> set knownTargetTypes) deploymentsList
      in
        if length otherTargets > 0 then Inl (UnknownTargetType otherTargets)
        else case checkRequiredProperties deploymentsList of
          Inl e \<Rightarrow> Inl e
        | Inr _ \<Rightarrow>
            if length skippedTargets > 0 then
              (if length deploymentsList > 1 then Inl (NotSingleSkipped (length deploymentsList))
               else Inr ())
            else if length primaryTargets \<noteq> 1 then Inl (NotOnePrimary (length primaryTargets))
            else
              (let primaryTarget = hd primaryTargets;
                   primaryIndex = indexOf deploymentsList primaryTarget
               in
                 if primaryIndex \<noteq> 0 then Inl (PrimaryNotFirst primaryIndex)
                 else
                   (let nonMatchingSecondaryTargets =
                          filter (\<lambda>t. deployEnv t \<noteq> deployEnv primaryTarget) secondaryTargets
                    in
                      if length nonMatchingSecondaryTargets > 0
                      then Inl (SecondaryDeployEnvMismatch nonMatchingSecondaryTargets)
                      else Inr ())))"

text \<open>
  A well-formed descriptor has every property required for its type defined.
\<close>

definition wellFormed :: "target \<Rightarrow> bool" where
  "wellFormed t = (type t \<in> set knownTargetTypes \<and> missingProperties t = [])"

section \<open>Strings and numbers\<close>

text \<open>
  Strings are lists of characters. \<^verbatim>\<open>String.prototype.trim\<close> removes white space at both
  ends (the ASCII white space and line terminators are modelled), \<^verbatim>\<open>split(sep)\<close> with a
  one-character separator cuts at every occurrence of it and always returns at least one
  piece, and \<^verbatim>\<open>xs[i]\<close> reads \<^verbatim>\<open>undefined\<close> beyond the end of an array.
\<close>

definition isWhiteSpace :: "char \<Rightarrow> bool" where
  "isWhiteSpace c = (c \<in> set [CHR 0x09, CHR 0x0A, CHR 0x0B, CHR 0x0C, CHR 0x0D, CHR 0x20])"

definition trim :: "string \<Rightarrow> string" where
  "trim s = rev (dropWhile isWhiteSpace (rev (dropWhile isWhiteSpace s)))"

fun splitOn :: "char \<Rightarrow> string \<Rightarrow> string list" where
  "splitOn sep [] = [[]]"
| "splitOn sep (c # cs) =
     (if c = sep then [] # splitOn sep cs
      else (case splitOn sep cs of
              [] \<Rightarrow> [[c]]
            | piece # pieces \<Rightarrow> (c # piece) # pieces))"

definition element :: "string list \<Rightarrow> nat \<Rightarrow> jsval" where
  "element xs i = (if i < length xs then Str (xs ! i) else Undefined)"

definition isDigit :: "char \<Rightarrow> bool" where
  "isDigit c = (c \<in> set ''0123456789'')"

definition digitValue :: "char \<Rightarrow> int" where
  "digitValue c = of_char c - 48"

definition parseDigits :: "string \<Rightarrow> int" where
  "parseDigits s = foldl (\<lambda>n c. 10 * n + digitValue c) 0 s"

fun decimal :: "nat \<Rightarrow> string" where
  "decimal n =
     (if n < 10 then [char_of (48 + n)] else decimal (n div 10) @ [char_of (48 + n mod 10)])"

declare decimal.simps [simp del]

text \<open>
  Numbers. A JavaScript number is an IEEE double: \<^verbatim>\<open>NaN\<close>, an infinity, or a finite
  value, which is kept here as the rational number it denotes (the two zeros are one value:
  the script never tells them apart).
\<close>

datatype jsnum = NaN | PosInf | NegInf | Fin rat

text \<open>
  The script converts with unary \<^verbatim>\<open>+\<close>, with \<^verbatim>\<open>-\<close> and inside template literals. The model
  computes these conversions itself wherever the language fixes the result by simple means:
  a string of decimal digits reads as its value rounded to the nearest double (as V8, the
  engine of Node, does for a string of any length), a string that starts with a letter
  other than \<^verbatim>\<open>I\<close> reads as \<^verbatim>\<open>NaN\<close>, the difference of two integers is
  rounded to the nearest double, and an integer below \<open>2 ^ 53\<close> in absolute value prints as
  its decimal digits. Everything else (a sign, white space, hexadecimal, exponents and
  fractions when reading; numbers from \<open>2 ^ 53\<close> on, and fractions, when printing or
  subtracting) is left to the JavaScript engine, which the model takes as a parameter:
  what is proved holds whatever the engine does there.
\<close>

record engine =
  engineToNumber :: "string \<Rightarrow> jsnum"
  engineToString :: "jsnum \<Rightarrow> string"
  engineMinus :: "jsnum \<Rightarrow> jsnum \<Rightarrow> jsnum"

text \<open>
  The nearest double of an integer, ties to the even significand: integers below \<open>2 ^ 53\<close>
  in absolute value are doubles; a larger one keeps its 53 leading bits, rounded, and
  becomes an infinity from \<open>2 ^ 1024\<close> on.
\<close>

function bitLength :: "int \<Rightarrow> nat" where
  "bitLength i = (if i \<le> 0 then 0 else Suc (bitLength (i div 2)))"
  by pat_completeness auto
termination
  by (relation "measure nat") auto

declare bitLength.simps [simp del]

definition roundInt :: "int \<Rightarrow> jsnum" where
  "roundInt i =
     (let a = \<bar>i\<bar> in
      if a < 2 ^ 53 then Fin (of_int i)
      else
        (let e = bitLength a - 53;
             q = a div 2 ^ e;
             r = a mod 2 ^ e;
             half = 2 ^ (e - 1);
             m = (if r > half \<or> (r = half \<and> odd q) then q + 1 else q);
             v = m * 2 ^ e
         in if v \<ge> 2 ^ 1024 then (if i < 0 then NegInf else PosInf)
            else Fin (of_int (if i < 0 then - v else v))))"

definition isInteger :: "rat \<Rightarrow> bool" where
  "isInteger q = (of_int \<lfloor>q\<rfloor> = q)"

definition isLetterNotI :: "char \<Rightarrow> bool" where
  "isLetterNotI c = (c \<in> set ''abcdefghijklmnopqrstuvwxyzABCDEFGHJKLMNOPQRSTUVWXYZ'')"

text \<open>\<^verbatim>\<open>+s\<close> for a string \<open>s\<close> (the empty string reads as \<open>0\<close>).\<close>

definition toNumber :: "engine \<Rightarrow> string \<Rightarrow> jsnum" where
  "toNumber js s =
     (if list_all isDigit s then roundInt (parseDigits s)
      else if (case s of [] \<Rightarrow> False | c # _ \<Rightarrow> isLetterNotI c) then NaN
      else engineToNumber js s)"

fun toNumberVal :: "engine \<Rightarrow> jsval \<Rightarrow> jsnum" where
  "toNumberVal js Undefined = NaN"
| "toNumberVal js Null = Fin 0"
| "toNumberVal js (Str s) = toNumber js s"

text \<open>A number inside a template literal: \<^verbatim>\<open>`${n}`\<close>.\<close>

fun numberToString :: "engine \<Rightarrow> jsnum \<Rightarrow> string" where
  "numberToString js NaN = ''NaN''"
| "numberToString js PosInf = ''Infinity''"
| "numberToString js NegInf = ''-Infinity''"
| "numberToString js (Fin q) =
     (if isInteger q \<and> \<bar>q\<bar> < 2 ^ 53
      then (if q < 0 then ''-'' @ decimal (nat (- \<lfloor>q\<rfloor>)) else decimal (nat \<lfloor>q\<rfloor>))
      else engineToString js (Fin q))"

text \<open>\<^verbatim>\<open>a - b\<close> on numbers.\<close>

fun minus :: "engine \<Rightarrow> jsnum \<Rightarrow> jsnum \<Rightarrow> jsnum" where
  "minus js NaN _ = NaN"
| "minus js _ NaN = NaN"
| "minus js PosInf PosInf = NaN"
| "minus js PosInf _ = PosInf"
| "minus js NegInf NegInf = NaN"
| "minus js NegInf _ = NegInf"
| "minus js (Fin a) PosInf = NegInf"
| "minus js (Fin a) NegInf = PosInf"
| "minus js (Fin a) (Fin b) =
     (if isInteger a \<and> isInteger b then roundInt (\<lfloor>a\<rfloor> - \<lfloor>b\<rfloor>)
      else engineMinus js (Fin a) (Fin b))"

text \<open>\<^verbatim>\<open>a >= b\<close> is false as soon as one side is \<^verbatim>\<open>NaN\<close>.\<close>

fun greaterEq :: "jsnum \<Rightarrow> jsnum \<Rightarrow> bool" where
  "greaterEq NaN _ = False"
| "greaterEq _ NaN = False"
| "greaterEq PosInf _ = True"
| "greaterEq NegInf NegInf = True"
| "greaterEq NegInf _ = False"
| "greaterEq (Fin a) PosInf = False"
| "greaterEq (Fin a) NegInf = True"
| "greaterEq (Fin a) (Fin b) = (a \<ge> b)"

text \<open>A number as a condition: \<^verbatim>\<open>NaN\<close> and zero are falsy.\<close>

fun truthy :: "jsnum \<Rightarrow> bool" where
  "truthy NaN = False"
| "truthy PosInf = True"
| "truthy NegInf = True"
| "truthy (Fin q) = (q \<noteq> 0)"

section \<open>The remote refs and their cache\<close>

text \<open>
  \<^verbatim>\<open>exec(cmd, {silent: true})\<close> of shelljs is the one collaborator: it maps a command line to
  the command's standard output, or throws (the script runs under \<^verbatim>\<open>set('-e')\<close>) when the
  command fails: \<open>None\<close>. The cache \<^verbatim>\<open>GIT_REMOTE_REFS_CACHE\<close> is a \<^verbatim>\<open>Map\<close> from command lines to
  arrays of lines; it is passed in and returned updated.
\<close>

datatype error = ExecError | TypeError

type_synonym shell = "string \<Rightarrow> string option"

type_synonym refsCache = "string \<Rightarrow> string list option"

record options =
  remote :: string
  retrieveFromCache :: bool

definition REPO_SLUG :: string where
  "REPO_SLUG = ''angular/angular''"

definition NG_REMOTE_URL :: string where
  "NG_REMOTE_URL = ''https://github.com/'' @ REPO_SLUG @ ''.git''"

text \<open>The default of the options parameter: \<^verbatim>\<open>{remote = NG_REMOTE_URL, retrieveFromCache = true} = {}\<close>.\<close>

definition defaultOptions :: options where
  "defaultOptions = \<lparr>remote = NG_REMOTE_URL, retrieveFromCache = True\<rparr>"

definition lsRemoteCmd :: "string \<Rightarrow> string \<Rightarrow> string" where
  "lsRemoteCmd rem refOrPattern = ''git ls-remote '' @ rem @ '' '' @ refOrPattern"

definition getRemoteRefs ::
  "shell \<Rightarrow> refsCache \<Rightarrow> string \<Rightarrow> options \<Rightarrow> error + (string list \<times> refsCache)" where
  "getRemoteRefs exec cache refOrPattern opts =
     (let cmd = lsRemoteCmd (remote opts) refOrPattern in
      case (if retrieveFromCache opts then cache cmd else None) of
        Some result \<Rightarrow> Inr (result, cache(cmd \<mapsto> result))
      | None \<Rightarrow>
          (case exec cmd of
             None \<Rightarrow> Inl ExecError
           | Some out \<Rightarrow>
               (let result = splitOn CHR 0x0A (trim out)
                in Inr (result, cache(cmd \<mapsto> result)))))"

text \<open>
  \<^verbatim>\<open>getRemoteRefs(branchName, options)[0].slice(0, 40)\<close>: reading \<^verbatim>\<open>[0]\<close> of an empty array
  gives \<^verbatim>\<open>undefined\<close>, whose \<^verbatim>\<open>slice\<close> is a \<^verbatim>\<open>TypeError\<close>.
\<close>

definition getLatestCommit ::
  "shell \<Rightarrow> refsCache \<Rightarrow> string \<Rightarrow> options \<Rightarrow> error + (string \<times> refsCache)" where
  "getLatestCommit exec cache branchName opts =
     (case getRemoteRefs exec cache branchName opts of
        Inl e \<Rightarrow> Inl e
      | Inr (result, cache') \<Rightarrow>
          (case result of
             [] \<Rightarrow> Inl TypeError
           | line # _ \<Rightarrow> Inr (take 40 line, cache')))"

section \<open>getMostRecentMinorBranch\<close>

text \<open>The regular expression \<^verbatim>\<open>/^\d+\.\d+\.x$/\<close>: digits, a dot, digits, and \<^verbatim>\<open>.x\<close> at the end.\<close>

definition isVersionBranch :: "string \<Rightarrow> bool" where
  "isVersionBranch s =
     (let major = takeWhile isDigit s; afterMajor = dropWhile isDigit s in
      major \<noteq> [] \<and>
      (case afterMajor of
         [] \<Rightarrow> False
       | c # cs \<Rightarrow>
           c = CHR ''.'' \<and>
           (let minor = takeWhile isDigit cs; afterMinor = dropWhile isDigit cs in
            minor \<noteq> [] \<and> afterMinor = ''.x'')))"

text \<open>\<^verbatim>\<open>line.split('/')[2]\<close>, and \<^verbatim>\<open>regex.test(name)\<close>, which tests the value as a string.\<close>

definition branchNameOf :: "string \<Rightarrow> jsval" where
  "branchNameOf line = element (splitOn CHR ''/'' line) 2"

definition regexTest :: "jsval \<Rightarrow> bool" where
  "regexTest v = isVersionBranch (template v)"

text \<open>
  The comparator of the sort: \<^verbatim>\<open>(majorA - majorB) || (minorA - minorB)\<close>, on the first two
  pieces of each name.
\<close>

definition compareVersions :: "engine \<Rightarrow> string \<Rightarrow> string \<Rightarrow> jsnum" where
  "compareVersions js a b =
     (let majorA = element (splitOn CHR ''.'' a) 0; minorA = element (splitOn CHR ''.'' a) 1;
          majorB = element (splitOn CHR ''.'' b) 0; minorB = element (splitOn CHR ''.'' b) 1;
          d = minus js (toNumberVal js majorA) (toNumberVal js majorB)
      in if truthy d then d else minus js (toNumberVal js minorA) (toNumberVal js minorB))"

text \<open>
  \<^verbatim>\<open>Array.prototype.sort(compare)\<close> is a stable sort; a comparator result that is \<^verbatim>\<open>NaN\<close>
  counts as \<open>0\<close>. It is modelled as an insertion sort that keeps equal elements in their
  order.
\<close>

fun positive :: "jsnum \<Rightarrow> bool" where
  "positive NaN = False"
| "positive PosInf = True"
| "positive NegInf = False"
| "positive (Fin q) = (q > 0)"

fun insertSorted :: "('a \<Rightarrow> 'a \<Rightarrow> jsnum) \<Rightarrow> 'a \<Rightarrow> 'a list \<Rightarrow> 'a list" where
  "insertSorted cmp x [] = [x]"
| "insertSorted cmp x (y # ys) =
     (if positive (cmp x y) then y # insertSorted cmp x ys else x # y # ys)"

definition sortBy :: "('a \<Rightarrow> 'a \<Rightarrow> jsnum) \<Rightarrow> 'a list \<Rightarrow> 'a list" where
  "sortBy cmp xs = foldr (insertSorted cmp) xs []"

text \<open>\<^verbatim>\<open>Array.prototype.pop\<close>: the last element, \<^verbatim>\<open>undefined\<close> on an empty array.\<close>

definition pop :: "string list \<Rightarrow> jsval" where
  "pop xs = (if xs = [] then Undefined else Str (last xs))"

text \<open>
  Every name that passes the filter is a string (\<^verbatim>\<open>undefined\<close> is tested as the string
  \<^verbatim>\<open>'undefined'\<close>, which does not match), so \<open>template\<close> is the identity on the names kept.
\<close>

definition versionBranches :: "string list \<Rightarrow> string list" where
  "versionBranches ls = map template (filter regexTest (map branchNameOf ls))"

definition getMostRecentMinorBranch ::
  "engine \<Rightarrow> shell \<Rightarrow> refsCache \<Rightarrow> string \<Rightarrow> options \<Rightarrow> error + (jsval \<times> refsCache)"
  where
  "getMostRecentMinorBranch js exec cache major opts =
     (case getRemoteRefs exec cache (''refs/heads/'' @ major @ ''.*.x'') opts of
        Inl e \<Rightarrow> Inl e
      | Inr (ls, cache') \<Rightarrow> Inr (pop (sortBy (compareVersions js) (versionBranches ls)), cache'))"

section \<open>computeInputVars\<close>

text \<open>
  The process environment: a variable that is not set reads as \<^verbatim>\<open>undefined\<close> (\<open>None\<close>).
\<close>

record env =
  CI_AIO_MIN_PWA_SCORE :: "string option"
  CI_BRANCH :: "string option"
  CI_COMMIT :: "string option"
  CI_PULL_REQUEST :: "string option"
  CI_REPO_NAME :: "string option"
  CI_REPO_OWNER :: "string option"
  CI_SECRET_AIO_DEPLOY_FIREBASE_TOKEN :: "string option"
  CI_STABLE_BRANCH :: "string option"

record inputVars =
  currentBranch :: jsval
  currentCommit :: jsval
  firebaseToken :: jsval
  isPullRequest :: bool
  minPwaScore :: jsval
  repoName :: jsval
  repoOwner :: jsval
  stableBranch :: jsval

fun envValue :: "string option \<Rightarrow> jsval" where
  "envValue None = Undefined"
| "envValue (Some s) = Str s"

definition computeInputVars :: "env \<Rightarrow> inputVars" where
  "computeInputVars e =
     \<lparr>currentBranch = envValue (CI_BRANCH e),
      currentCommit = envValue (CI_COMMIT e),
      firebaseToken = envValue (CI_SECRET_AIO_DEPLOY_FIREBASE_TOKEN e),
      isPullRequest = (envValue (CI_PULL_REQUEST e) \<noteq> Str ''false''),
      minPwaScore = envValue (CI_AIO_MIN_PWA_SCORE e),
      repoName = envValue (CI_REPO_NAME e),
      repoOwner = envValue (CI_REPO_OWNER e),
      stableBranch = envValue (CI_STABLE_BRANCH e)\<rparr>"

section \<open>computeDeploymentsInfo\<close>

text \<open>
  \<^verbatim>\<open>+branchName.split('.', 1)[0]\<close>: calling \<^verbatim>\<open>split\<close> on \<^verbatim>\<open>undefined\<close> or \<^verbatim>\<open>null\<close> is a
  \<^verbatim>\<open>TypeError\<close>.
\<close>

definition computeMajorVersion :: "engine \<Rightarrow> jsval \<Rightarrow> error + jsnum" where
  "computeMajorVersion js branchName =
     (case branchName of
        Str s \<Rightarrow> Inr (toNumberVal js (element (take 1 (splitOn CHR ''.'' s)) 0))
      | _ \<Rightarrow> Inl TypeError)"

definition skipDeployment :: "string \<Rightarrow> target" where
  "skipDeployment r =
     \<lparr>name = Str ''skipped'', type = Str ''skipped'', reason = Str r,
      deployEnv = Undefined, projectId = Undefined, siteId = Undefined,
      deployedUrl = Undefined, preDeployActions = None, postDeployActions = None\<rparr>"

text \<open>The table \<^verbatim>\<open>deploymentInfoPerTarget\<close>, one definition for each of its entries.\<close>

definition deploymentInfoPerTarget_next :: target where
  "deploymentInfoPerTarget_next =
     \<lparr>name = Str ''next'', type = Str ''primary'', reason = Undefined,
      deployEnv = Str ''next'', projectId = Str ''angular-io'',
      siteId = Str ''next-angular-io-site'', deployedUrl = Str ''https://next.angular.io/'',
      preDeployActions = Some [build, checkPayloadSize],
      postDeployActions = Some [testPwaScore]\<rparr>"

definition deploymentInfoPerTarget_rc :: target where
  "deploymentInfoPerTarget_rc =
     \<lparr>name = Str ''rc'', type = Str ''primary'', reason = Undefined,
      deployEnv = Str ''rc'', projectId = Str ''angular-io'',
      siteId = Str ''rc-angular-io-site'', deployedUrl = Str ''https://rc.angular.io/'',
      preDeployActions = Some [build, checkPayloadSize],
      postDeployActions = Some [testPwaScore]\<rparr>"

definition deploymentInfoPerTarget_stable :: "engine \<Rightarrow> jsnum \<Rightarrow> target" where
  "deploymentInfoPerTarget_stable js currentBranchMajorVersion =
     \<lparr>name = Str ''stable'', type = Str ''primary'', reason = Undefined,
      deployEnv = Str ''stable'', projectId = Str ''angular-io'',
      siteId = Str (''v'' @ numberToString js currentBranchMajorVersion @ ''-angular-io-site''),
      deployedUrl = Str ''https://angular.io/'',
      preDeployActions = Some [build, checkPayloadSize],
      postDeployActions = Some [testPwaScore]\<rparr>"

definition deploymentInfoPerTarget_archive :: "engine \<Rightarrow> jsnum \<Rightarrow> target" where
  "deploymentInfoPerTarget_archive js currentBranchMajorVersion =
     \<lparr>name = Str ''archive'', type = Str ''primary'', reason = Undefined,
      deployEnv = Str ''archive'', projectId = Str ''angular-io'',
      siteId = Str (''v'' @ numberToString js currentBranchMajorVersion @ ''-angular-io-site''),
      deployedUrl =
        Str (''https://v'' @ numberToString js currentBranchMajorVersion @ ''.angular.io/''),
      preDeployActions = Some [build, checkPayloadSize],
      postDeployActions = Some [testPwaScore]\<rparr>"

definition deploymentInfoPerTarget_noActiveRc :: target where
  "deploymentInfoPerTarget_noActiveRc =
     \<lparr>name = Str ''stableNoActiveRc'', type = Str ''secondary'', reason = Undefined,
      deployEnv = Str ''stable'', projectId = Str ''angular-io'',
      siteId = Str ''rc-angular-io-site'', deployedUrl = Str ''https://rc.angular.io/'',
      preDeployActions = Some [removeServiceWorker, redirectToAngularIo],
      postDeployActions = Some [testNoActiveRcDeployment]\<rparr>"

text \<open>The reasons of the five skipped plans.\<close>

definition reasonNotRepo :: string where
  "reasonNotRepo = ''Skipping deploy because this is not '' @ REPO_SLUG @ ''.''"

definition reasonPullRequest :: string where
  "reasonPullRequest = ''Skipping deploy because this is a PR build.''"

definition reasonNotLatest :: "jsval \<Rightarrow> string \<Rightarrow> string" where
  "reasonNotLatest commit latestCommit =
     ''Skipping deploy because '' @ template commit @
     '' is not the latest commit ('' @ latestCommit @ '').''"

definition reasonNotMostRecentMinor :: "jsval \<Rightarrow> jsval \<Rightarrow> string" where
  "reasonNotMostRecentMinor branch mostRecentMinorBranchForMajor =
     ''Skipping deploy of branch \"'' @ template branch @ ''\" to Firebase.'' @
     [CHR 0x0A] @ ''There is a more recent branch with the same major version: '' @
     ''\"'' @ template mostRecentMinorBranchForMajor @ ''\"''"

definition reasonNotLowerThanStable :: "jsval \<Rightarrow> jsval \<Rightarrow> string" where
  "reasonNotLowerThanStable branch stableName =
     ''Skipping deploy of branch \"'' @ template branch @ ''\" to Firebase.'' @
     [CHR 0x0A] @ ''This branch has an equal or higher major version than the stable branch '' @
     ''(\"'' @ template stableName @ ''\") and is not the most recent minor branch.''"

text \<open>
  The planner. It reads the remote through \<open>getLatestCommit\<close> and
  \<open>getMostRecentMinorBranch\<close> with their default options, so it takes the shell and the
  cache and returns the cache with the plan; an exception of a callee ends it.
\<close>

definition computeDeploymentsInfo ::
  "engine \<Rightarrow> shell \<Rightarrow> refsCache \<Rightarrow> inputVars \<Rightarrow> error + (target list \<times> refsCache)"
  where
  "computeDeploymentsInfo js exec cache v =
     (if template (repoOwner v) @ ''/'' @ template (repoName v) \<noteq> REPO_SLUG
      then Inr ([skipDeployment reasonNotRepo], cache)
      else if isPullRequest v then Inr ([skipDeployment reasonPullRequest], cache)
      else
        case getLatestCommit exec cache (template (currentBranch v)) defaultOptions of
          Inl e \<Rightarrow> Inl e
        | Inr (latestCommit, cache1) \<Rightarrow>
            if currentCommit v \<noteq> Str latestCommit
            then Inr ([skipDeployment (reasonNotLatest (currentCommit v) latestCommit)], cache1)
            else
              case computeMajorVersion js (currentBranch v) of
                Inl e \<Rightarrow> Inl e
              | Inr currentBranchMajorVersion \<Rightarrow>
                  if currentBranch v = Str ''master''
                  then Inr ([deploymentInfoPerTarget_next], cache1)
                  else
                    case getMostRecentMinorBranch js exec cache1 ''*'' defaultOptions of
                      Inl e \<Rightarrow> Inl e
                    | Inr (mostRecentMinorBranch, cache2) \<Rightarrow>
                        (let rcBranch =
                               (if mostRecentMinorBranch \<noteq> stableBranch v
                                then mostRecentMinorBranch else Null)
                         in
                           if currentBranch v = rcBranch
                           then Inr ([deploymentInfoPerTarget_rc], cache2)
                           else if currentBranch v = stableBranch v
                           then Inr
                             (if rcBranch \<noteq> Null
                              then [deploymentInfoPerTarget_stable js currentBranchMajorVersion]
                              else [deploymentInfoPerTarget_stable js currentBranchMajorVersion,
                                    deploymentInfoPerTarget_noActiveRc],
                              cache2)
                           else
                             case getMostRecentMinorBranch js exec cache2
                                    (numberToString js currentBranchMajorVersion) defaultOptions of
                               Inl e \<Rightarrow> Inl e
                             | Inr (mostRecentMinorBranchForMajor, cache3) \<Rightarrow>
                                 if currentBranch v \<noteq> mostRecentMinorBranchForMajor
                                 then Inr
                                   ([skipDeployment
                                       (reasonNotMostRecentMinor (currentBranch v)
                                          mostRecentMinorBranchForMajor)],
                                    cache3)
                                 else
                                   case computeMajorVersion js (stableBranch v) of
                                     Inl e \<Rightarrow> Inl e
                                   | Inr stableBranchMajorVersion \<Rightarrow>
                                       if greaterEq currentBranchMajorVersion
                                            stableBranchMajorVersion
                                       then Inr
                                         ([skipDeployment
                                             (reasonNotLowerThanStable (currentBranch v)
                                                (stableBranch v))],
                                          cache3)
                                       else Inr
                                         ([deploymentInfoPerTarget_archive js
                                             currentBranchMajorVersion],
                                          cache3)))"

section \<open>Version keys and example data\<close>

text \<open>
  The version key of a branch name \<^verbatim>\<open><major>.<minor>.x\<close>: the numbers written by its two
  runs of digits.
\<close>

definition majorOf :: "string \<Rightarrow> int" where
  "majorOf s = parseDigits (takeWhile isDigit s)"



text \<open>
  A remote with the branches \<^verbatim>\<open>master\<close>, \<^verbatim>\<open>2.9.x\<close>, \<^verbatim>\<open>2.10.x\<close> and \<^verbatim>\<open>3.0.x\<close>, all at the same
  commit, as \<^verbatim>\<open>git ls-remote\<close> answers the queries of the script: one line
  \<^verbatim>\<open><sha><TAB>refs/heads/<branch>\<close> for each matching branch, and no output when nothing
  matches.
\<close>

definition exampleCommit :: string where
  "exampleCommit = ''0123456789abcdef0123456789abcdef01234567''"

definition refLine :: "string \<Rightarrow> string" where
  "refLine branch = exampleCommit @ [CHR 0x09] @ ''refs/heads/'' @ branch"

definition exampleRemote :: shell where
  "exampleRemote cmd =
     (if cmd = lsRemoteCmd NG_REMOTE_URL ''master'' then Some (refLine ''master'' @ [CHR 0x0A])
      else if cmd = lsRemoteCmd NG_REMOTE_URL ''2.9.x'' then Some (refLine ''2.9.x'' @ [CHR 0x0A])
      else if cmd = lsRemoteCmd NG_REMOTE_URL ''2.10.x''
        then Some (refLine ''2.10.x'' @ [CHR 0x0A])
      else if cmd = lsRemoteCmd NG_REMOTE_URL ''3.0.x'' then Some (refLine ''3.0.x'' @ [CHR 0x0A])
      else if cmd = lsRemoteCmd NG_REMOTE_URL ''refs/heads/*.*.x''
        then Some (refLine ''2.10.x'' @ [CHR 0x0A] @ refLine ''2.9.x'' @ [CHR 0x0A] @
                   refLine ''3.0.x'' @ [CHR 0x0A])
      else if cmd = lsRemoteCmd NG_REMOTE_URL ''refs/heads/2.*.x''
        then Some (refLine ''2.10.x'' @ [CHR 0x0A] @ refLine ''2.9.x'' @ [CHR 0x0A])
      else if cmd = lsRemoteCmd NG_REMOTE_URL ''refs/heads/3.*.x''
        then Some (refLine ''3.0.x'' @ [CHR 0x0A])
      else Some [])"



text \<open>
  An engine for the examples. They read only strings of digits and branch names that start
  with a letter, print and subtract only small integers, and so never consult it.
\<close>

definition exampleEngine :: engine where
  "exampleEngine =
     \<lparr>engineToNumber = (\<lambda>s. NaN), engineToString = (\<lambda>n. []),
      engineMinus = (\<lambda>a b. NaN)\<rparr>"

text \<open>A shell on which every command fails.\<close>

definition failingRemote :: shell where
  "failingRemote cmd = None"

text \<open>
  The inputs of a push build of \<open>branch\<close> at the example commit in the repository
  \<^verbatim>\<open>angular/angular\<close>, with \<open>stableName\<close> the stable branch.
\<close>

definition exampleInput :: "string \<Rightarrow> string \<Rightarrow> inputVars" where
  "exampleInput branch stableName =
     \<lparr>currentBranch = Str branch, currentCommit = Str exampleCommit,
      firebaseToken = Str ''token'', isPullRequest = False, minPwaScore = Str ''95'',
      repoName = Str ''angular'', repoOwner = Str ''angular'',
      stableBranch = Str stableName\<rparr>"

text \<open>The environment of a build of \<^verbatim>\<open>3.0.x\<close> in which \<^verbatim>\<open>CI_PULL_REQUEST\<close> is not set.\<close>

definition exampleEnv :: env where
  "exampleEnv =
     \<lparr>CI_AIO_MIN_PWA_SCORE = Some ''95'', CI_BRANCH = Some ''3.0.x'',
      CI_COMMIT = Some exampleCommit, CI_PULL_REQUEST = None,
      CI_REPO_NAME = Some ''angular'', CI_REPO_OWNER = Some ''angular'',
      CI_SECRET_AIO_DEPLOY_FIREBASE_TOKEN = Some ''token'',
      CI_STABLE_BRANCH = Some ''3.0.x''\<rparr>"

text \<open>The result of a call without the cache it returns.\<close>

definition valueOf :: "error + ('a \<times> refsCache) \<Rightarrow> error + 'a" where
  "valueOf r = map_sum id fst r"

section \<open>Auxiliary facts\<close>

subsection \<open>The validator\<close>

lemma checkRequiredProperties_ok:
  "checkRequiredProperties ts = Inr () \<longleftrightarrow> (\<forall>t\<in>set ts. missingProperties t = [])"
  by (induction ts) auto

lemma singleton_filter_hd:
  assumes "length (filter P xs) = 1" "x \<in> set xs" "P x"
  shows "hd (filter P xs) = x"
proof -
  obtain y where y: "filter P xs = [y]"
    using assms(1) by (cases "filter P xs") auto
  have "x \<in> set (filter P xs)" using assms by simp
  then show ?thesis using y by simp
qed

lemma length_two_filters:
  assumes "\<And>x. \<not> (P x \<and> Q x)"
  shows "length (filter P xs) + length (filter Q xs) \<le> length xs"
  using assms by (induction xs) auto

lemma primary_and_skipped_long:
  assumes "filter (\<lambda>t. type t = Str ''primary'') plan \<noteq> []"
    "filter (\<lambda>t. type t = Str ''skipped'') plan \<noteq> []"
  shows "1 < length plan"
proof -
  have "length (filter (\<lambda>t. type t = Str ''primary'') plan)
        + length (filter (\<lambda>t. type t = Str ''skipped'') plan) \<le> length plan"
    by (rule length_two_filters) simp
  moreover have "0 < length (filter (\<lambda>t. type t = Str ''primary'') plan)"
    "0 < length (filter (\<lambda>t. type t = Str ''skipped'') plan)"
    using assms by simp_all
  ultimately show ?thesis by linarith
qed

lemma rejects_two_primaries:
  assumes "length (filter (\<lambda>t. type t = Str ''primary'') plan) \<ge> 2"
  shows "\<exists>e. validateDeploymentsInfo plan = Inl e"
proof -
  have "length (filter (\<lambda>t. type t = Str ''primary'') plan) \<le> length plan"
    by (rule length_filter_le)
  with assms have "1 < length plan" by linarith
  with assms show ?thesis unfolding validateDeploymentsInfo_def Let_def
    by (auto split: sum.splits)
qed

lemma rejects_mismatch:
  assumes "s \<in> set plan" "type s = Str ''secondary''" "p \<in> set plan" "type p = Str ''primary''"
    "deployEnv s \<noteq> deployEnv p"
  shows "\<exists>e. validateDeploymentsInfo plan = Inl e"
proof -
  have "filter (\<lambda>t. type t = Str ''primary'') plan \<noteq> []"
    using assms(3,4) by (auto simp: filter_empty_conv)
  then have long: "filter (\<lambda>t. type t = Str ''skipped'') plan \<noteq> [] \<Longrightarrow> 1 < length plan"
    by (rule primary_and_skipped_long)
  have mism: "length (filter (\<lambda>t. type t = Str ''primary'') plan) = 1 \<Longrightarrow>
      0 < length (filter (\<lambda>t. deployEnv t \<noteq>
             deployEnv (hd (filter (\<lambda>t. type t = Str ''primary'') plan)))
           (filter (\<lambda>t. type t = Str ''secondary'') plan))"
  proof -
    assume "length (filter (\<lambda>t. type t = Str ''primary'') plan) = 1"
    then have "hd (filter (\<lambda>t. type t = Str ''primary'') plan) = p"
      using assms(3,4) by (intro singleton_filter_hd) auto
    moreover have "s \<in> set (filter (\<lambda>t. deployEnv t \<noteq> deployEnv p)
        (filter (\<lambda>t. type t = Str ''secondary'') plan))"
      using assms(1,2,5) by simp
    ultimately show ?thesis
      by (metis length_pos_if_in_set)
  qed
  show ?thesis
  proof (cases "validateDeploymentsInfo plan")
    case (Inl e)
    then show ?thesis by blast
  next
    case (Inr u)
    then have False
      using long mism unfolding validateDeploymentsInfo_def Let_def
      by (simp split: sum.splits if_splits)
    then show ?thesis ..
  qed
qed

lemma accepts_skipped:
  assumes "type t = Str ''skipped''" "wellFormed t"
  shows "validateDeploymentsInfo [t] = Inr ()"
  using assms unfolding validateDeploymentsInfo_def Let_def wellFormed_def knownTargetTypes_def
  by simp

lemma accepts_primary_secondaries:
  assumes "type p = Str ''primary''" "wellFormed p"
    "\<forall>s\<in>set ss. type s = Str ''secondary'' \<and> wellFormed s \<and> deployEnv s = deployEnv p"
  shows "validateDeploymentsInfo (p # ss) = Inr ()"
proof -
  have prim: "filter (\<lambda>t. type t = Str ''primary'') ss = []"
    using assms(3) by (auto simp: filter_empty_conv)
  have skip: "filter (\<lambda>t. type t = Str ''skipped'') ss = []"
    using assms(3) by (auto simp: filter_empty_conv)
  have other: "filter (\<lambda>t. type t \<notin> set knownTargetTypes) ss = []"
    using assms(3) by (auto simp: filter_empty_conv knownTargetTypes_def)
  have other_p: "type p \<in> set knownTargetTypes"
    using assms(1) by (simp add: knownTargetTypes_def)
  have req: "checkRequiredProperties (p # ss) = Inr ()"
    using assms(2,3) by (simp add: checkRequiredProperties_ok wellFormed_def)
  have nonm: "filter (\<lambda>t. deployEnv t \<noteq> deployEnv p) (filter (\<lambda>t. type t = Str ''secondary'') ss) = []"
    using assms(3) by (auto simp: filter_empty_conv)
  show ?thesis
    unfolding validateDeploymentsInfo_def Let_def
    using assms(1) prim skip other other_p req nonm
    by simp
qed

subsection \<open>Splitting and version branches\<close>

lemma splitOn_not_Nil: "splitOn sep s \<noteq> []"
  by (induction s) (auto split: list.splits)

lemma splitOn_append_sep:
  "sep \<notin> set xs \<Longrightarrow> splitOn sep (xs @ sep # ys) = xs # splitOn sep ys"
  by (induction xs) auto

lemma digits_no_dot: "CHR ''.'' \<notin> set (takeWhile isDigit s)"
proof
  assume "CHR ''.'' \<in> set (takeWhile isDigit s)"
  then have "isDigit CHR ''.''" by (rule set_takeWhileD[THEN conjunct2])
  then show False by (simp add: isDigit_def)
qed

lemma digits_takeWhile: "list_all isDigit (takeWhile isDigit s)"
  by (simp add: list_all_iff) (meson set_takeWhileD)

lemma toNumber_digits:
  "toNumber js (takeWhile isDigit s) = roundInt (parseDigits (takeWhile isDigit s))"
  by (simp add: toNumber_def digits_takeWhile)

lemma foldl_digits_nonneg:
  "list_all isDigit s \<Longrightarrow> 0 \<le> acc \<Longrightarrow> 0 \<le> foldl (\<lambda>n c. 10 * n + digitValue c) acc s"
proof (induction s arbitrary: acc)
  case Nil
  then show ?case by simp
next
  case (Cons c s)
  have "0 \<le> digitValue c"
    using Cons.prems(1) by (auto simp: isDigit_def digitValue_def)
  then have "0 \<le> 10 * acc + digitValue c" using Cons.prems(2) by simp
  then show ?case using Cons by simp
qed

lemma majorOf_nonneg: "0 \<le> majorOf s"
  unfolding majorOf_def parseDigits_def
  by (rule foldl_digits_nonneg[OF digits_takeWhile]) simp


text \<open>Below \<open>2 ^ 53\<close> the conversions are exact.\<close>

lemma roundInt_small: "\<bar>i\<bar> < 2 ^ 53 \<Longrightarrow> roundInt i = Fin (of_int i)"
  by (simp add: roundInt_def)

lemma roundInt_major: "majorOf s < 2 ^ 53 \<Longrightarrow> roundInt (majorOf s) = Fin (of_int (majorOf s))"
  using majorOf_nonneg[of s] by (intro roundInt_small) simp



lemma numberToString_small:
  assumes "0 \<le> i" "i < 2 ^ 53"
  shows "numberToString js (Fin (of_int i)) = decimal (nat i)"
proof -
  have "\<bar>(of_int i :: rat)\<bar> < 2 ^ 53" using assms by simp
  moreover have "\<not> (of_int i :: rat) < 0" using assms by simp
  ultimately show ?thesis by (simp add: isInteger_def)
qed

lemma isVersionBranch_shape:
  assumes "isVersionBranch s"
  shows "s = takeWhile isDigit s @ CHR ''.'' # takeWhile isDigit (tl (dropWhile isDigit s)) @ ''.x''"
proof -
  obtain cs where d: "dropWhile isDigit s = CHR ''.'' # cs" and r: "dropWhile isDigit cs = ''.x''"
    using assms unfolding isVersionBranch_def Let_def by (auto split: list.splits)
  have "s = takeWhile isDigit s @ dropWhile isDigit s" by simp
  also have "\<dots> = takeWhile isDigit s @ CHR ''.'' # (takeWhile isDigit cs @ dropWhile isDigit cs)"
    using d by simp
  finally show ?thesis using d r by simp
qed

lemma isVersionBranch_split:
  assumes "isVersionBranch s"
  shows "splitOn CHR ''.'' s =
    [takeWhile isDigit s, takeWhile isDigit (tl (dropWhile isDigit s)), ''x'']"
proof -
  let ?ma = "takeWhile isDigit s" and ?mi = "takeWhile isDigit (tl (dropWhile isDigit s))"
  have "splitOn CHR ''.'' s = splitOn CHR ''.'' (?ma @ CHR ''.'' # ?mi @ ''.x'')"
    using isVersionBranch_shape[OF assms] by simp
  also have "\<dots> = ?ma # splitOn CHR ''.'' (?mi @ CHR ''.'' # ''x'')"
    by (simp add: splitOn_append_sep digits_no_dot)
  also have "splitOn CHR ''.'' (?mi @ CHR ''.'' # ''x'') = ?mi # splitOn CHR ''.'' ''x''"
    by (rule splitOn_append_sep) (rule digits_no_dot)
  finally show ?thesis by simp
qed

lemma not_isVersionBranch_master: "\<not> isVersionBranch ''master''"
  by (simp add: isVersionBranch_def isDigit_def)

lemma not_isVersionBranch_undefined: "\<not> isVersionBranch ''undefined''"
  by (simp add: isVersionBranch_def isDigit_def)

lemma not_isVersionBranch_null: "\<not> isVersionBranch ''null''"
  by (simp add: isVersionBranch_def isDigit_def)

lemma regexTest_Str: "regexTest v \<Longrightarrow> \<exists>n. v = Str n \<and> isVersionBranch n"
  by (cases v) (simp_all add: regexTest_def not_isVersionBranch_undefined not_isVersionBranch_null)

lemma versionBranches_isVersionBranch: "n \<in> set (versionBranches ls) \<Longrightarrow> isVersionBranch n"
  unfolding versionBranches_def by (auto dest: regexTest_Str)

lemma computeMajorVersion_version:
  assumes "isVersionBranch s"
  shows "computeMajorVersion js (Str s) = Inr (roundInt (majorOf s))"
  unfolding computeMajorVersion_def majorOf_def
  by (simp add: isVersionBranch_split[OF assms] element_def toNumber_digits)



subsection \<open>The sort\<close>

lemma set_insertSorted: "set (insertSorted cmp x ys) = insert x (set ys)"
  by (induction ys) auto

lemma set_sortBy: "set (sortBy cmp xs) = set xs"
  unfolding sortBy_def by (induction xs) (auto simp: set_insertSorted)




lemma pop_sortBy_member:
  "(names = [] \<longrightarrow> pop (sortBy cmp names) = Undefined) \<and>
   (names \<noteq> [] \<longrightarrow> sortBy cmp names \<noteq> [] \<and> last (sortBy cmp names) \<in> set names \<and>
      pop (sortBy cmp names) = Str (last (sortBy cmp names)))"
proof -
  let ?ys = "sortBy cmp names"
  have e: "?ys = [] \<longleftrightarrow> names = []"
    using set_sortBy[of cmp names] by (metis set_empty)
  show ?thesis
  proof (intro conjI impI)
    assume "names = []" then show "pop ?ys = Undefined" using e by (simp add: pop_def)
  next
    assume "names \<noteq> []"
    then show ne: "?ys \<noteq> []" using e by simp
    then have "last ?ys \<in> set ?ys" by (rule last_in_set)
    then show "last ?ys \<in> set names" by (simp add: set_sortBy)
    show "pop ?ys = Str (last ?ys)" using ne by (simp add: pop_def)
  qed
qed


subsection \<open>The resolver\<close>

lemma valueOf_Inr: "valueOf r = Inr x \<Longrightarrow> \<exists>c. r = Inr (x, c)"
  unfolding valueOf_def by (cases r) auto

lemma getMostRecentMinorBranch_result:
  assumes "getMostRecentMinorBranch js exec cache major opts = Inr (r, cache')"
  shows "r = Undefined \<or> (\<exists>n. r = Str n \<and> isVersionBranch n)"
proof -
  obtain ls where r: "r = pop (sortBy (compareVersions js) (versionBranches ls))"
    using assms unfolding getMostRecentMinorBranch_def by (auto split: sum.splits)
  show ?thesis
    using pop_sortBy_member[of "versionBranches ls" "compareVersions js"]
    unfolding r by (cases "versionBranches ls = []") (auto dest: versionBranches_isVersionBranch)
qed

lemma getMostRecentMinorBranch_not_Null:
  "getMostRecentMinorBranch js exec cache major opts = Inr (r, cache') \<Longrightarrow> r \<noteq> Null"
  by (drule getMostRecentMinorBranch_result) auto


subsection \<open>The cache\<close>

lemma getRemoteRefs_caches:
  assumes "getRemoteRefs exec cache p opts = Inr (r, cache1)"
  shows "cache1 (lsRemoteCmd (remote opts) p) = Some r"
  using assms unfolding getRemoteRefs_def Let_def
  by (auto split: option.splits if_splits)

lemma getRemoteRefs_hit:
  assumes "retrieveFromCache opts" "cache (lsRemoteCmd (remote opts) p) = Some r"
  shows "getRemoteRefs exec cache p opts = Inr (r, cache)"
proof -
  have "cache(lsRemoteCmd (remote opts) p \<mapsto> r) = cache"
    using assms(2) by (rule map_upd_triv)
  then show ?thesis
    using assms unfolding getRemoteRefs_def Let_def by simp
qed

lemma getRemoteRefs_twice:
  assumes "retrieveFromCache opts" "getRemoteRefs exec1 cache p opts = Inr (r, cache1)"
  shows "getRemoteRefs exec2 cache1 p opts = Inr (r, cache1)"
proof -
  have "cache1 (lsRemoteCmd (remote opts) p) = Some r"
    using assms(2) by (rule getRemoteRefs_caches)
  with assms(1) show ?thesis
    by (rule getRemoteRefs_hit[where cache = cache1])
qed

lemma getRemoteRefs_miss:
  assumes "exec (lsRemoteCmd (remote opts) p) = Some out"
    and "\<not> retrieveFromCache opts \<or> cache (lsRemoteCmd (remote opts) p) = None"
  shows "getRemoteRefs exec cache p opts =
    Inr (splitOn CHR 0x0A (trim out),
         cache(lsRemoteCmd (remote opts) p \<mapsto> splitOn CHR 0x0A (trim out)))"
  using assms unfolding getRemoteRefs_def Let_def by auto

subsection \<open>The plans of the planner\<close>

lemma computeDeploymentsInfo_shapes:
  assumes "computeDeploymentsInfo js exec cache v = Inr (plan, cache')"
  shows "(\<exists>r. plan = [skipDeployment r]) \<or> plan = [deploymentInfoPerTarget_next]
       \<or> plan = [deploymentInfoPerTarget_rc]
       \<or> (\<exists>m. plan = [deploymentInfoPerTarget_stable js m])
       \<or> (\<exists>m. plan = [deploymentInfoPerTarget_stable js m, deploymentInfoPerTarget_noActiveRc])
       \<or> (\<exists>m. plan = [deploymentInfoPerTarget_archive js m])"
  using assms unfolding computeDeploymentsInfo_def Let_def
  by (auto split: sum.splits if_splits prod.splits)

lemma wellFormed_skipDeployment: "wellFormed (skipDeployment r)"
  by (simp add: wellFormed_def skipDeployment_def knownTargetTypes_def missingProperties_def
      requiredPropertiesForSkipped_def propIsUndefined_def)

lemma wellFormed_next: "wellFormed deploymentInfoPerTarget_next"
  by (simp add: wellFormed_def deploymentInfoPerTarget_next_def knownTargetTypes_def
      missingProperties_def requiredPropertiesForNonSkipped_def propIsUndefined_def)

lemma wellFormed_rc: "wellFormed deploymentInfoPerTarget_rc"
  by (simp add: wellFormed_def deploymentInfoPerTarget_rc_def knownTargetTypes_def
      missingProperties_def requiredPropertiesForNonSkipped_def propIsUndefined_def)

lemma wellFormed_stable: "wellFormed (deploymentInfoPerTarget_stable js m)"
  by (simp add: wellFormed_def deploymentInfoPerTarget_stable_def knownTargetTypes_def
      missingProperties_def requiredPropertiesForNonSkipped_def propIsUndefined_def)

lemma wellFormed_archive: "wellFormed (deploymentInfoPerTarget_archive js m)"
  by (simp add: wellFormed_def deploymentInfoPerTarget_archive_def knownTargetTypes_def
      missingProperties_def requiredPropertiesForNonSkipped_def propIsUndefined_def)

lemma wellFormed_noActiveRc: "wellFormed deploymentInfoPerTarget_noActiveRc"
  by (simp add: wellFormed_def deploymentInfoPerTarget_noActiveRc_def knownTargetTypes_def
      missingProperties_def requiredPropertiesForNonSkipped_def propIsUndefined_def)

lemma type_targets:
  "type (skipDeployment r) = Str ''skipped''"
  "type deploymentInfoPerTarget_next = Str ''primary''"
  "type deploymentInfoPerTarget_rc = Str ''primary''"
  "type (deploymentInfoPerTarget_stable js m) = Str ''primary''"
  "type (deploymentInfoPerTarget_archive js m) = Str ''primary''"
  "type deploymentInfoPerTarget_noActiveRc = Str ''secondary''"
  "deployEnv deploymentInfoPerTarget_noActiveRc = deployEnv (deploymentInfoPerTarget_stable js m)"
  by (simp_all add: skipDeployment_def deploymentInfoPerTarget_next_def
      deploymentInfoPerTarget_rc_def deploymentInfoPerTarget_stable_def
      deploymentInfoPerTarget_archive_def deploymentInfoPerTarget_noActiveRc_def)

lemma skip_not_archive: "skipDeployment r \<noteq> deploymentInfoPerTarget_archive js m"
  by (simp add: deploymentInfoPerTarget_archive_def skipDeployment_def)

text \<open>
  With a shell on which no command fails, a cache without empty entries (the script never
  stores one) and branch names that are strings, the planner returns a plan.
\<close>

lemma getRemoteRefs_returns:
  assumes "\<forall>cmd. exec cmd \<noteq> None" "\<forall>cmd. cache cmd \<noteq> Some []"
  shows "\<exists>r c. getRemoteRefs exec cache p opts = Inr (r, c) \<and> r \<noteq> [] \<and>
           (\<forall>cmd. c cmd \<noteq> Some [])"
proof (cases "if retrieveFromCache opts then cache (lsRemoteCmd (remote opts) p) else None")
  case None
  obtain out where "exec (lsRemoteCmd (remote opts) p) = Some out"
    using assms(1) by (metis option.exhaust)
  then show ?thesis
    using None assms(2) unfolding getRemoteRefs_def Let_def
    by (simp add: splitOn_not_Nil)
next
  case (Some r)
  then have "r \<noteq> []" using assms(2) by (metis option.distinct(1))
  then show ?thesis
    using Some assms(2) unfolding getRemoteRefs_def Let_def by simp
qed

lemma getLatestCommit_returns:
  assumes "\<forall>cmd. exec cmd \<noteq> None" "\<forall>cmd. cache cmd \<noteq> Some []"
  shows "\<exists>l c. getLatestCommit exec cache p opts = Inr (l, c) \<and> (\<forall>cmd. c cmd \<noteq> Some [])"
proof -
  obtain r c where "getRemoteRefs exec cache p opts = Inr (r, c)" "r \<noteq> []"
    "\<forall>cmd. c cmd \<noteq> Some []"
    using getRemoteRefs_returns[OF assms] by blast
  then show ?thesis unfolding getLatestCommit_def by (cases r) auto
qed

lemma getMostRecentMinorBranch_returns:
  assumes "\<forall>cmd. exec cmd \<noteq> None" "\<forall>cmd. cache cmd \<noteq> Some []"
  shows "\<exists>b c. getMostRecentMinorBranch js exec cache major opts = Inr (b, c) \<and>
           (\<forall>cmd. c cmd \<noteq> Some [])"
proof -
  obtain r c where "getRemoteRefs exec cache (''refs/heads/'' @ major @ ''.*.x'') opts = Inr (r, c)"
    "\<forall>cmd. c cmd \<noteq> Some []"
    using getRemoteRefs_returns[OF assms] by blast
  then show ?thesis unfolding getMostRecentMinorBranch_def
    by (simp only: sum.case prod.case) blast
qed

lemma computeDeploymentsInfo_returns:
  assumes "\<forall>cmd. exec cmd \<noteq> None" "\<forall>cmd. cache cmd \<noteq> Some []"
    and "currentBranch v = Str b" "stableBranch v = Str sb"
  shows "\<exists>plan c. computeDeploymentsInfo js exec cache v = Inr (plan, c)"
proof -
  obtain l c1 where l: "getLatestCommit exec cache b defaultOptions = Inr (l, c1)"
    and c1: "\<forall>cmd. c1 cmd \<noteq> Some []"
    using getLatestCommit_returns[OF assms(1,2)] by blast
  obtain m c2 where m: "getMostRecentMinorBranch js exec c1 ''*'' defaultOptions = Inr (m, c2)"
    and c2: "\<forall>cmd. c2 cmd \<noteq> Some []"
    using getMostRecentMinorBranch_returns[OF assms(1) c1] by blast
  obtain k where k: "computeMajorVersion js (Str b) = Inr k"
    by (simp add: computeMajorVersion_def)
  obtain ks where ks: "computeMajorVersion js (Str sb) = Inr ks"
    by (simp add: computeMajorVersion_def)
  obtain n c3 where n: "getMostRecentMinorBranch js exec c2 (numberToString js k) defaultOptions
      = Inr (n, c3)"
    using getMostRecentMinorBranch_returns[OF assms(1) c2] by blast
  show ?thesis
    unfolding computeDeploymentsInfo_def Let_def
    by (simp add: assms(3,4) l m n k ks)
qed

section \<open>The claims\<close>

text \<open>
  Every theorem on the planner and on the resolver holds for every engine \<open>js\<close>. The
  examples use \<open>exampleEngine\<close>.
\<close>

subsection \<open>C1: the stable branch when there is no active RC\<close>

text \<open>
  As the claim is stated, for every input whose current branch is the stable branch and
  the most recent minor branch, it fails: the three guards at the head of the planner come
  first. On the example remote, where \<^verbatim>\<open>3.0.x\<close> is the most recent minor branch, a build of
  the stable branch \<^verbatim>\<open>3.0.x\<close> is skipped when it is a pull-request build, when it runs in a
  fork, and when its commit is not the latest of the branch.
\<close>

theorem computeDeploymentsInfo_stable_no_rc_counterexample:
  "currentBranch ((exampleInput ''3.0.x'' ''3.0.x'')\<lparr>isPullRequest := True\<rparr>)
     = stableBranch ((exampleInput ''3.0.x'' ''3.0.x'')\<lparr>isPullRequest := True\<rparr>)
   \<and> valueOf (getMostRecentMinorBranch exampleEngine exampleRemote Map.empty ''*'' defaultOptions)
     = Inr (stableBranch ((exampleInput ''3.0.x'' ''3.0.x'')\<lparr>isPullRequest := True\<rparr>))
   \<and> valueOf (computeDeploymentsInfo exampleEngine exampleRemote Map.empty
        ((exampleInput ''3.0.x'' ''3.0.x'')\<lparr>isPullRequest := True\<rparr>))
     = Inr [skipDeployment reasonPullRequest]
   \<and> valueOf (computeDeploymentsInfo exampleEngine exampleRemote Map.empty
        ((exampleInput ''3.0.x'' ''3.0.x'')\<lparr>isPullRequest := True\<rparr>))
     \<noteq> Inr [deploymentInfoPerTarget_stable exampleEngine (Fin 3),
             deploymentInfoPerTarget_noActiveRc]
   \<and> valueOf (computeDeploymentsInfo exampleEngine exampleRemote Map.empty
        ((exampleInput ''3.0.x'' ''3.0.x'')\<lparr>repoOwner := Str ''fork''\<rparr>))
     = Inr [skipDeployment reasonNotRepo]
   \<and> valueOf (computeDeploymentsInfo exampleEngine exampleRemote Map.empty
        ((exampleInput ''3.0.x'' ''3.0.x'')\<lparr>currentCommit := Str ''0000''\<rparr>))
     = Inr [skipDeployment (reasonNotLatest (Str ''0000'') exampleCommit)]"
  by code_simp

text \<open>
  Claim C1, amended. For every input that passes the repository-identity check, the
  pull-request check and the stale-commit check, whose current branch is the stable branch
  and the overall most recent minor branch (so there is no active RC), the plan has exactly
  two descriptors in this order: the primary target \<^verbatim>\<open>stable\<close>, then the secondary target
  \<^verbatim>\<open>stableNoActiveRc\<close>, which has the \<^verbatim>\<open>deployEnv\<close> \<^verbatim>\<open>stable\<close> and the site
  \<^verbatim>\<open>rc-angular-io-site\<close>. The target \<^verbatim>\<open>stable\<close> is the one of the branch's major version as the
  script reads it, a double.
\<close>

theorem computeDeploymentsInfo_stable_no_rc:
  assumes "template (repoOwner v) @ ''/'' @ template (repoName v) = REPO_SLUG"
    and "\<not> isPullRequest v"
    and "currentBranch v = Str b" and "stableBranch v = Str b"
    and "getLatestCommit exec cache b defaultOptions = Inr (latestCommit, cache1)"
    and "currentCommit v = Str latestCommit"
    and "getMostRecentMinorBranch js exec cache1 ''*'' defaultOptions = Inr (Str b, cache2)"
  shows "computeDeploymentsInfo js exec cache v =
           Inr ([deploymentInfoPerTarget_stable js (roundInt (majorOf b)),
                 deploymentInfoPerTarget_noActiveRc], cache2)
         \<and> type (deploymentInfoPerTarget_stable js (roundInt (majorOf b))) = Str ''primary''
         \<and> name (deploymentInfoPerTarget_stable js (roundInt (majorOf b))) = Str ''stable''
         \<and> type deploymentInfoPerTarget_noActiveRc = Str ''secondary''
         \<and> deployEnv deploymentInfoPerTarget_noActiveRc = Str ''stable''
         \<and> siteId deploymentInfoPerTarget_noActiveRc = Str ''rc-angular-io-site''"
proof -
  have vb: "isVersionBranch b"
    using getMostRecentMinorBranch_result[OF assms(7)] by simp
  then have nm: "b \<noteq> ''master''" using not_isVersionBranch_master by auto
  have "computeDeploymentsInfo js exec cache v =
           Inr ([deploymentInfoPerTarget_stable js (roundInt (majorOf b)),
                 deploymentInfoPerTarget_noActiveRc], cache2)"
    using assms nm unfolding computeDeploymentsInfo_def
    by (simp add: computeMajorVersion_version[OF vb])
  then show ?thesis
    by (simp add: deploymentInfoPerTarget_stable_def deploymentInfoPerTarget_noActiveRc_def)
qed

theorem computeDeploymentsInfo_stable_no_rc_witness:
  "valueOf (computeDeploymentsInfo exampleEngine exampleRemote Map.empty
      (exampleInput ''3.0.x'' ''3.0.x''))
     = Inr [deploymentInfoPerTarget_stable exampleEngine (Fin 3),
            deploymentInfoPerTarget_noActiveRc]"
proof -
  have "(case getLatestCommit exampleRemote Map.empty ''3.0.x'' defaultOptions of
           Inl e \<Rightarrow> Inl e
         | Inr (l, c1) \<Rightarrow>
             (case getMostRecentMinorBranch exampleEngine exampleRemote c1 ''*'' defaultOptions of
                Inl e \<Rightarrow> Inl e
              | Inr (m, c2) \<Rightarrow> Inr (l, m)))
        = Inr (exampleCommit, Str ''3.0.x'')"
    by code_simp
  then obtain c1 c2 where
    l: "getLatestCommit exampleRemote Map.empty ''3.0.x'' defaultOptions = Inr (exampleCommit, c1)"
    and m: "getMostRecentMinorBranch exampleEngine exampleRemote c1 ''*'' defaultOptions
              = Inr (Str ''3.0.x'', c2)"
    by (auto split: sum.splits)
  have k: "roundInt (majorOf ''3.0.x'') = Fin 3" by code_simp
  have "computeDeploymentsInfo exampleEngine exampleRemote Map.empty
          (exampleInput ''3.0.x'' ''3.0.x'') =
      Inr ([deploymentInfoPerTarget_stable exampleEngine (roundInt (majorOf ''3.0.x'')),
            deploymentInfoPerTarget_noActiveRc], c2)"
    by (rule computeDeploymentsInfo_stable_no_rc[OF _ _ _ _ l _ m, THEN conjunct1])
       (simp_all add: exampleInput_def REPO_SLUG_def)
  then show ?thesis by (simp add: valueOf_def k)
qed

subsection \<open>C2: the master branch\<close>

text \<open>
  Claim C2. For every input that passes the repository-identity check, the pull-request
  check and the stale-commit check and whose current branch is \<^verbatim>\<open>master\<close>, the plan is exactly
  the single primary target \<^verbatim>\<open>next\<close>, whatever the stable branch is.
\<close>

theorem computeDeploymentsInfo_master:
  assumes "template (repoOwner v) @ ''/'' @ template (repoName v) = REPO_SLUG"
    and "\<not> isPullRequest v"
    and "currentBranch v = Str ''master''"
    and "getLatestCommit exec cache ''master'' defaultOptions = Inr (latestCommit, cache1)"
    and "currentCommit v = Str latestCommit"
  shows "computeDeploymentsInfo js exec cache v = Inr ([deploymentInfoPerTarget_next], cache1)"
  using assms unfolding computeDeploymentsInfo_def
  by (simp add: computeMajorVersion_def)

theorem computeDeploymentsInfo_master_witness:
  "valueOf (getLatestCommit exampleRemote Map.empty ''master'' defaultOptions) = Inr exampleCommit \<and>
   valueOf (computeDeploymentsInfo exampleEngine exampleRemote Map.empty
      (exampleInput ''master'' ''3.0.x''))
     = Inr [deploymentInfoPerTarget_next]"
proof -
  have l: "valueOf (getLatestCommit exampleRemote Map.empty ''master'' defaultOptions) = Inr exampleCommit"
    by code_simp
  then obtain c where c: "getLatestCommit exampleRemote Map.empty ''master'' defaultOptions = Inr (exampleCommit, c)"
    by (auto dest: valueOf_Inr)
  have "computeDeploymentsInfo exampleEngine exampleRemote Map.empty
          (exampleInput ''master'' ''3.0.x'')
      = Inr ([deploymentInfoPerTarget_next], c)"
    by (rule computeDeploymentsInfo_master[OF _ _ _ c])
       (simp_all add: exampleInput_def REPO_SLUG_def)
  then show ?thesis using l by (simp add: valueOf_def)
qed

subsection \<open>C3: the stable branch when there is an active RC\<close>

text \<open>
  As the claim is stated, it fails in two ways. The three guards come first: a build of the
  stable branch \<^verbatim>\<open>2.10.x\<close>, with \<^verbatim>\<open>3.0.x\<close> the most recent minor branch, is skipped when it is
  a pull-request build, when it runs in a fork, and when its commit is not the latest. And
  the test for \<^verbatim>\<open>master\<close> comes before the test for the stable branch: when the stable branch
  is \<^verbatim>\<open>master\<close> itself, the plan is the target \<^verbatim>\<open>next\<close>.
\<close>

theorem computeDeploymentsInfo_stable_active_rc_counterexample:
  "currentBranch ((exampleInput ''2.10.x'' ''2.10.x'')\<lparr>isPullRequest := True\<rparr>)
     = stableBranch ((exampleInput ''2.10.x'' ''2.10.x'')\<lparr>isPullRequest := True\<rparr>)
   \<and> valueOf (getMostRecentMinorBranch exampleEngine exampleRemote Map.empty ''*'' defaultOptions)
     = Inr (Str ''3.0.x'')
   \<and> valueOf (computeDeploymentsInfo exampleEngine exampleRemote Map.empty
        ((exampleInput ''2.10.x'' ''2.10.x'')\<lparr>isPullRequest := True\<rparr>))
     = Inr [skipDeployment reasonPullRequest]
   \<and> valueOf (computeDeploymentsInfo exampleEngine exampleRemote Map.empty
        ((exampleInput ''2.10.x'' ''2.10.x'')\<lparr>isPullRequest := True\<rparr>))
     \<noteq> Inr [deploymentInfoPerTarget_stable exampleEngine (Fin 2)]
   \<and> valueOf (computeDeploymentsInfo exampleEngine exampleRemote Map.empty
        ((exampleInput ''2.10.x'' ''2.10.x'')\<lparr>repoOwner := Str ''fork''\<rparr>))
     = Inr [skipDeployment reasonNotRepo]
   \<and> valueOf (computeDeploymentsInfo exampleEngine exampleRemote Map.empty
        ((exampleInput ''2.10.x'' ''2.10.x'')\<lparr>currentCommit := Str ''0000''\<rparr>))
     = Inr [skipDeployment (reasonNotLatest (Str ''0000'') exampleCommit)]
   \<and> currentBranch (exampleInput ''master'' ''master'')
     = stableBranch (exampleInput ''master'' ''master'')
   \<and> valueOf (getMostRecentMinorBranch exampleEngine exampleRemote Map.empty ''*'' defaultOptions)
     \<noteq> Inr (stableBranch (exampleInput ''master'' ''master''))
   \<and> valueOf (computeDeploymentsInfo exampleEngine exampleRemote Map.empty
        (exampleInput ''master'' ''master''))
     = Inr [deploymentInfoPerTarget_next]
   \<and> deploymentInfoPerTarget_next \<noteq> deploymentInfoPerTarget_stable exampleEngine NaN"
  by code_simp

text \<open>
  Claim C3, amended. For every input that passes the repository-identity check, the
  pull-request check and the stale-commit check, whose current branch is the stable branch,
  is not \<^verbatim>\<open>master\<close>, and differs from the overall most recent minor branch, the plan is exactly
  the single primary target \<^verbatim>\<open>stable\<close> of the branch's major version, with no secondary
  target.
\<close>

theorem computeDeploymentsInfo_stable_active_rc:
  assumes "template (repoOwner v) @ ''/'' @ template (repoName v) = REPO_SLUG"
    and "\<not> isPullRequest v"
    and "currentBranch v = Str b" and "stableBranch v = Str b" and "b \<noteq> ''master''"
    and "getLatestCommit exec cache b defaultOptions = Inr (latestCommit, cache1)"
    and "currentCommit v = Str latestCommit"
    and "getMostRecentMinorBranch js exec cache1 ''*'' defaultOptions = Inr (mostRecent, cache2)"
    and "mostRecent \<noteq> Str b"
  shows "\<exists>major. computeMajorVersion js (Str b) = Inr major \<and>
           computeDeploymentsInfo js exec cache v =
             Inr ([deploymentInfoPerTarget_stable js major], cache2)"
proof -
  have "mostRecent \<noteq> Null" using assms(8) by (rule getMostRecentMinorBranch_not_Null)
  moreover obtain major where "computeMajorVersion js (Str b) = Inr major"
    by (simp add: computeMajorVersion_def)
  ultimately show ?thesis
    using assms unfolding computeDeploymentsInfo_def
    by auto
qed

theorem computeDeploymentsInfo_stable_active_rc_witness:
  "valueOf (computeDeploymentsInfo exampleEngine exampleRemote Map.empty
      (exampleInput ''2.10.x'' ''2.10.x''))
     = Inr [deploymentInfoPerTarget_stable exampleEngine (Fin 2)]"
proof -
  have "(case getLatestCommit exampleRemote Map.empty ''2.10.x'' defaultOptions of
           Inl e \<Rightarrow> Inl e
         | Inr (l, c1) \<Rightarrow>
             (case getMostRecentMinorBranch exampleEngine exampleRemote c1 ''*'' defaultOptions of
                Inl e \<Rightarrow> Inl e
              | Inr (m, c2) \<Rightarrow> Inr (l, m)))
        = Inr (exampleCommit, Str ''3.0.x'')"
    by code_simp
  then obtain c1 c2 where
    l: "getLatestCommit exampleRemote Map.empty ''2.10.x'' defaultOptions = Inr (exampleCommit, c1)"
    and m: "getMostRecentMinorBranch exampleEngine exampleRemote c1 ''*'' defaultOptions
              = Inr (Str ''3.0.x'', c2)"
    by (auto split: sum.splits)
  have k: "computeMajorVersion exampleEngine (Str ''2.10.x'') = Inr (Fin 2)" by code_simp
  have "\<exists>major. computeMajorVersion exampleEngine (Str ''2.10.x'') = Inr major \<and>
      computeDeploymentsInfo exampleEngine exampleRemote Map.empty
        (exampleInput ''2.10.x'' ''2.10.x'') =
      Inr ([deploymentInfoPerTarget_stable exampleEngine major], c2)"
    by (rule computeDeploymentsInfo_stable_active_rc[OF _ _ _ _ _ l _ m])
       (simp_all add: exampleInput_def REPO_SLUG_def)
  then show ?thesis by (auto simp: valueOf_def k)
qed

subsection \<open>C4: older version branches\<close>

text \<open>
  As the claim is stated, it fails. The test of the script is
  \<^verbatim>\<open>currentBranchMajorVersion >= stableBranchMajorVersion\<close>, and the major version of a stable
  branch whose name does not start with a number is \<^verbatim>\<open>NaN\<close>, which no number is greater than
  or equal to. On the example remote with the stable branch \<^verbatim>\<open>master\<close>, a build of \<^verbatim>\<open>2.10.x\<close>,
  which is the most recent minor branch of the major version 2 and neither the RC branch
  \<^verbatim>\<open>3.0.x\<close> nor the stable branch, has the plan of the single target \<^verbatim>\<open>archive\<close>, although its
  major version is not less than a major version of the stable branch: there is none.
  Moreover the major version of a branch is a double: that of \<^verbatim>\<open>9007199254740993.0.x\<close> is
  \<open>9007199254740992\<close>, not the number that the name of the branch starts with.
\<close>

theorem computeDeploymentsInfo_archive_counterexample:
  "isVersionBranch ''2.10.x''
   \<and> currentBranch (exampleInput ''2.10.x'' ''master'') = Str ''2.10.x''
   \<and> stableBranch (exampleInput ''2.10.x'' ''master'') = Str ''master''
   \<and> valueOf (getMostRecentMinorBranch exampleEngine exampleRemote Map.empty ''*'' defaultOptions)
       = Inr (Str ''3.0.x'')
   \<and> valueOf (getMostRecentMinorBranch exampleEngine exampleRemote Map.empty ''2'' defaultOptions)
       = Inr (Str ''2.10.x'')
   \<and> computeMajorVersion exampleEngine (Str ''2.10.x'') = Inr (Fin 2)
   \<and> computeMajorVersion exampleEngine (Str ''master'') = Inr NaN
   \<and> \<not> greaterEq (Fin 2) NaN
   \<and> valueOf (computeDeploymentsInfo exampleEngine exampleRemote Map.empty
        (exampleInput ''2.10.x'' ''master''))
       = Inr [deploymentInfoPerTarget_archive exampleEngine (Fin 2)]
   \<and> majorOf ''9007199254740993.0.x'' = 9007199254740993
   \<and> computeMajorVersion exampleEngine (Str ''9007199254740993.0.x'')
       = Inr (Fin 9007199254740992)"
  by code_simp

text \<open>
  Claim C4, amended. Let the current branch have the form \<^verbatim>\<open><major>.<minor>.x\<close> with a major
  version below \<open>2 ^ 53\<close>, and be neither the RC branch nor the stable branch (it is not
  \<^verbatim>\<open>master\<close>, by its form), and let the remote answer the queries of the planner. If the
  branch is not the most recent minor branch of its major version, the plan is a single
  skipped descriptor. Let moreover the major version of the stable branch be a finite
  number, which it is not when the name of the stable branch starts with a letter. If the
  current branch is the most recent minor branch of its major version and its major version
  is greater than or equal to the stable one, the plan is a single skipped descriptor. The
  plan is the single primary target \<^verbatim>\<open>archive\<close> only when the branch is the most recent minor
  branch of its major version and its major version is less than the stable one, and under
  these two conditions it is that target as soon as the three guards pass. The \<^verbatim>\<open>siteId\<close> and
  the \<^verbatim>\<open>deployedUrl\<close> of the target are built from the decimal digits of the branch's major
  version.
\<close>

theorem computeDeploymentsInfo_archive:
  assumes "currentBranch v = Str b" and "isVersionBranch b" and "majorOf b < 2 ^ 53"
    and "getLatestCommit exec cache b defaultOptions = Inr (latestCommit, cache1)"
    and "getMostRecentMinorBranch js exec cache1 ''*'' defaultOptions = Inr (mostRecent, cache2)"
    and "currentBranch v \<noteq> (if mostRecent \<noteq> stableBranch v then mostRecent else Null)"
    and "currentBranch v \<noteq> stableBranch v"
    and "getMostRecentMinorBranch js exec cache2 (decimal (nat (majorOf b))) defaultOptions
           = Inr (mostRecentForMajor, cache3)"
  shows "(mostRecentForMajor \<noteq> Str b \<longrightarrow>
            (\<exists>r c. computeDeploymentsInfo js exec cache v = Inr ([skipDeployment r], c)))
       \<and> (mostRecentForMajor = Str b \<and>
            computeMajorVersion js (stableBranch v) = Inr (Fin stableMajor) \<and>
            of_int (majorOf b) \<ge> stableMajor \<longrightarrow>
            (\<exists>r c. computeDeploymentsInfo js exec cache v = Inr ([skipDeployment r], c)))
       \<and> (computeMajorVersion js (stableBranch v) = Inr (Fin stableMajor) \<and>
            (\<exists>m c. computeDeploymentsInfo js exec cache v
                      = Inr ([deploymentInfoPerTarget_archive js m], c)) \<longrightarrow>
            template (repoOwner v) @ ''/'' @ template (repoName v) = REPO_SLUG
            \<and> \<not> isPullRequest v \<and> currentCommit v = Str latestCommit
            \<and> mostRecentForMajor = Str b \<and> of_int (majorOf b) < stableMajor)
       \<and> (computeMajorVersion js (stableBranch v) = Inr (Fin stableMajor) \<and>
            template (repoOwner v) @ ''/'' @ template (repoName v) = REPO_SLUG
            \<and> \<not> isPullRequest v \<and> currentCommit v = Str latestCommit
            \<and> mostRecentForMajor = Str b \<and> of_int (majorOf b) < stableMajor \<longrightarrow>
            computeDeploymentsInfo js exec cache v
              = Inr ([deploymentInfoPerTarget_archive js (Fin (of_int (majorOf b)))], cache3))
       \<and> siteId (deploymentInfoPerTarget_archive js (Fin (of_int (majorOf b))))
            = Str (''v'' @ decimal (nat (majorOf b)) @ ''-angular-io-site'')
       \<and> deployedUrl (deploymentInfoPerTarget_archive js (Fin (of_int (majorOf b))))
            = Str (''https://v'' @ decimal (nat (majorOf b)) @ ''.angular.io/'')"
proof -
  have nm: "b \<noteq> ''master''" using assms(2) not_isVersionBranch_master by auto
  have mv: "computeMajorVersion js (Str b) = Inr (Fin (of_int (majorOf b)))"
    using computeMajorVersion_version[OF assms(2)] roundInt_major[OF assms(3)] by simp
  have ns: "numberToString js (Fin (of_int (majorOf b))) = decimal (nat (majorOf b))"
    using majorOf_nonneg assms(3) by (rule numberToString_small)
  have eq: "computeDeploymentsInfo js exec cache v =
     (if template (repoOwner v) @ ''/'' @ template (repoName v) \<noteq> REPO_SLUG
      then Inr ([skipDeployment reasonNotRepo], cache)
      else if isPullRequest v then Inr ([skipDeployment reasonPullRequest], cache)
      else if currentCommit v \<noteq> Str latestCommit
      then Inr ([skipDeployment (reasonNotLatest (currentCommit v) latestCommit)], cache1)
      else if Str b \<noteq> mostRecentForMajor
      then Inr ([skipDeployment (reasonNotMostRecentMinor (currentBranch v) mostRecentForMajor)],
                cache3)
      else case computeMajorVersion js (stableBranch v) of
             Inl e \<Rightarrow> Inl e
           | Inr stableBranchMajorVersion \<Rightarrow>
               if greaterEq (Fin (of_int (majorOf b))) stableBranchMajorVersion
               then Inr ([skipDeployment (reasonNotLowerThanStable (currentBranch v)
                            (stableBranch v))],
                         cache3)
               else Inr ([deploymentInfoPerTarget_archive js (Fin (of_int (majorOf b)))],
                         cache3))"
    using assms(1,4-8) nm unfolding computeDeploymentsInfo_def
    by (simp add: mv ns del: numberToString.simps)
  have a: "mostRecentForMajor \<noteq> Str b \<longrightarrow>
            (\<exists>r c. computeDeploymentsInfo js exec cache v = Inr ([skipDeployment r], c))"
    unfolding eq by auto
  have b: "mostRecentForMajor = Str b \<and>
            computeMajorVersion js (stableBranch v) = Inr (Fin stableMajor) \<and>
            of_int (majorOf b) \<ge> stableMajor \<longrightarrow>
            (\<exists>r c. computeDeploymentsInfo js exec cache v = Inr ([skipDeployment r], c))"
    unfolding eq by auto
  have c: "computeMajorVersion js (stableBranch v) = Inr (Fin stableMajor) \<and>
            (\<exists>m c. computeDeploymentsInfo js exec cache v
                      = Inr ([deploymentInfoPerTarget_archive js m], c)) \<longrightarrow>
            template (repoOwner v) @ ''/'' @ template (repoName v) = REPO_SLUG
            \<and> \<not> isPullRequest v \<and> currentCommit v = Str latestCommit
            \<and> mostRecentForMajor = Str b \<and> of_int (majorOf b) < stableMajor"
    unfolding eq by (auto simp: skip_not_archive split: if_split_asm)
  have d: "computeMajorVersion js (stableBranch v) = Inr (Fin stableMajor) \<and>
            template (repoOwner v) @ ''/'' @ template (repoName v) = REPO_SLUG
            \<and> \<not> isPullRequest v \<and> currentCommit v = Str latestCommit
            \<and> mostRecentForMajor = Str b \<and> of_int (majorOf b) < stableMajor \<longrightarrow>
            computeDeploymentsInfo js exec cache v
              = Inr ([deploymentInfoPerTarget_archive js (Fin (of_int (majorOf b)))], cache3)"
    unfolding eq by auto
  have e: "siteId (deploymentInfoPerTarget_archive js (Fin (of_int (majorOf b))))
            = Str (''v'' @ decimal (nat (majorOf b)) @ ''-angular-io-site'')"
    by (simp add: deploymentInfoPerTarget_archive_def ns del: numberToString.simps)
  have f: "deployedUrl (deploymentInfoPerTarget_archive js (Fin (of_int (majorOf b))))
            = Str (''https://v'' @ decimal (nat (majorOf b)) @ ''.angular.io/'')"
    by (simp add: deploymentInfoPerTarget_archive_def ns del: numberToString.simps)
  from a b c d e f show ?thesis by (intro conjI)
qed

theorem computeDeploymentsInfo_archive_witness:
  "(\<exists>r. valueOf (computeDeploymentsInfo exampleEngine exampleRemote Map.empty
            (exampleInput ''2.9.x'' ''3.0.x''))
          = Inr [skipDeployment r])
   \<and> (\<exists>r. valueOf (computeDeploymentsInfo exampleEngine exampleRemote Map.empty
            (exampleInput ''2.10.x'' ''2.9.x''))
          = Inr [skipDeployment r])
   \<and> valueOf (computeDeploymentsInfo exampleEngine exampleRemote Map.empty
        (exampleInput ''2.10.x'' ''3.0.x''))
          = Inr [deploymentInfoPerTarget_archive exampleEngine (Fin 2)]
   \<and> (of_int (majorOf ''2.10.x'') :: rat) < 3
   \<and> siteId (deploymentInfoPerTarget_archive exampleEngine (Fin 2))
       = Str ''v2-angular-io-site''
   \<and> deployedUrl (deploymentInfoPerTarget_archive exampleEngine (Fin 2))
       = Str ''https://v2.angular.io/''"
proof -
  have "(case getLatestCommit exampleRemote Map.empty ''2.9.x'' defaultOptions of
           Inl e \<Rightarrow> Inl e
         | Inr (l, c1) \<Rightarrow>
             (case getMostRecentMinorBranch exampleEngine exampleRemote c1 ''*'' defaultOptions of
                Inl e \<Rightarrow> Inl e
              | Inr (m, c2) \<Rightarrow>
                  (case getMostRecentMinorBranch exampleEngine exampleRemote c2
                          (decimal (nat (majorOf ''2.9.x''))) defaultOptions of
                     Inl e \<Rightarrow> Inl e
                   | Inr (n, c3) \<Rightarrow> Inr (l, m, n))))
        = Inr (exampleCommit, Str ''3.0.x'', Str ''2.10.x'')"
    by code_simp
  then obtain c1 c2 c3 where
    l: "getLatestCommit exampleRemote Map.empty ''2.9.x'' defaultOptions = Inr (exampleCommit, c1)"
    and m: "getMostRecentMinorBranch exampleEngine exampleRemote c1 ''*'' defaultOptions
              = Inr (Str ''3.0.x'', c2)"
    and n: "getMostRecentMinorBranch exampleEngine exampleRemote c2
              (decimal (nat (majorOf ''2.9.x''))) defaultOptions
              = Inr (Str ''2.10.x'', c3)"
    by (auto split: sum.splits)
  have "(case getLatestCommit exampleRemote Map.empty ''2.10.x'' defaultOptions of
           Inl e \<Rightarrow> Inl e
         | Inr (l, c1) \<Rightarrow>
             (case getMostRecentMinorBranch exampleEngine exampleRemote c1 ''*'' defaultOptions of
                Inl e \<Rightarrow> Inl e
              | Inr (m, c2) \<Rightarrow>
                  (case getMostRecentMinorBranch exampleEngine exampleRemote c2
                          (decimal (nat (majorOf ''2.10.x''))) defaultOptions of
                     Inl e \<Rightarrow> Inl e
                   | Inr (n, c3) \<Rightarrow> Inr (l, m, n))))
        = Inr (exampleCommit, Str ''3.0.x'', Str ''2.10.x'')"
    by code_simp
  then obtain d1 d2 d3 where
    l': "getLatestCommit exampleRemote Map.empty ''2.10.x'' defaultOptions = Inr (exampleCommit, d1)"
    and m': "getMostRecentMinorBranch exampleEngine exampleRemote d1 ''*'' defaultOptions
              = Inr (Str ''3.0.x'', d2)"
    and n': "getMostRecentMinorBranch exampleEngine exampleRemote d2
              (decimal (nat (majorOf ''2.10.x''))) defaultOptions
              = Inr (Str ''2.10.x'', d3)"
    by (auto split: sum.splits)
  have v1: "isVersionBranch ''2.9.x''" and v2: "isVersionBranch ''2.10.x''" by code_simp+
  have k: "majorOf ''2.10.x'' = 2" and k9: "majorOf ''2.9.x'' = 2" by code_simp+
  have b1: "majorOf ''2.9.x'' < 2 ^ 53" and b2: "majorOf ''2.10.x'' < 2 ^ 53"
    by (simp_all add: k k9)
  have s1: "computeMajorVersion exampleEngine (Str ''2.9.x'') = Inr (Fin 2)"
    and s2: "computeMajorVersion exampleEngine (Str ''3.0.x'') = Inr (Fin 3)" by code_simp+
  have dec: "decimal 2 = ''2''" by code_simp
  have a: "\<exists>r c. computeDeploymentsInfo exampleEngine exampleRemote Map.empty
             (exampleInput ''2.9.x'' ''3.0.x'') = Inr ([skipDeployment r], c)"
    using computeDeploymentsInfo_archive
      [where v = "exampleInput ''2.9.x'' ''3.0.x''" and b = "''2.9.x''",
       OF _ v1 b1 l m _ _ n, THEN conjunct1]
    by (simp add: exampleInput_def)
  have b: "\<exists>r c. computeDeploymentsInfo exampleEngine exampleRemote Map.empty
             (exampleInput ''2.10.x'' ''2.9.x'') = Inr ([skipDeployment r], c)"
    using computeDeploymentsInfo_archive
      [where v = "exampleInput ''2.10.x'' ''2.9.x''" and b = "''2.10.x''" and stableMajor = 2,
       OF _ v2 b2 l' m' _ _ n', THEN conjunct2, THEN conjunct1] s1 k
    by (simp add: exampleInput_def)
  note inst = computeDeploymentsInfo_archive
      [where v = "exampleInput ''2.10.x'' ''3.0.x''" and b = "''2.10.x''" and stableMajor = 3,
       OF _ v2 b2 l' m' _ _ n']
  have c: "computeDeploymentsInfo exampleEngine exampleRemote Map.empty
             (exampleInput ''2.10.x'' ''3.0.x'')
             = Inr ([deploymentInfoPerTarget_archive exampleEngine
                       (Fin (of_int (majorOf ''2.10.x'')))], d3)"
    using inst[THEN conjunct2, THEN conjunct2, THEN conjunct2, THEN conjunct1] s2 k
    by (simp add: exampleInput_def REPO_SLUG_def)
  have d: "(of_int (majorOf ''2.10.x'') :: rat) < 3"
    using inst[THEN conjunct2, THEN conjunct2, THEN conjunct1] s2 c
    by (auto simp: exampleInput_def)
  have e: "siteId (deploymentInfoPerTarget_archive exampleEngine (Fin 2))
       = Str ''v2-angular-io-site''"
    using inst[THEN conjunct2, THEN conjunct2, THEN conjunct2, THEN conjunct2, THEN conjunct1]
    by (simp add: exampleInput_def k dec)
  have f: "deployedUrl (deploymentInfoPerTarget_archive exampleEngine (Fin 2))
       = Str ''https://v2.angular.io/''"
    using inst[THEN conjunct2, THEN conjunct2, THEN conjunct2, THEN conjunct2, THEN conjunct2]
    by (simp add: exampleInput_def k dec)
  from a b c d e f show ?thesis
    by (auto simp: valueOf_def k)
qed

subsection \<open>C5: the most recent minor branch\<close>




subsection \<open>C6: what the validator rejects and accepts\<close>

text \<open>
  Claim C6. \<open>validateDeploymentsInfo\<close> throws on every plan that contains two primary
  descriptors, and on every plan that contains a primary descriptor and a secondary one
  with a different \<^verbatim>\<open>deployEnv\<close>. It accepts a plan of one well-formed skipped descriptor, and a
  plan of one well-formed primary descriptor followed by well-formed secondary descriptors
  with the \<^verbatim>\<open>deployEnv\<close> of the primary one.
\<close>

theorem validateDeploymentsInfo_rejects_accepts:
  "(2 \<le> length (filter (\<lambda>t. type t = Str ''primary'') plan)
      \<longrightarrow> (\<exists>e. validateDeploymentsInfo plan = Inl e))
   \<and> (s \<in> set plan' \<and> type s = Str ''secondary'' \<and> p \<in> set plan' \<and> type p = Str ''primary''
        \<and> deployEnv s \<noteq> deployEnv p
      \<longrightarrow> (\<exists>e. validateDeploymentsInfo plan' = Inl e))
   \<and> (type t = Str ''skipped'' \<and> wellFormed t \<longrightarrow> validateDeploymentsInfo [t] = Inr ())
   \<and> (type q = Str ''primary'' \<and> wellFormed q
        \<and> (\<forall>s\<in>set ss. type s = Str ''secondary'' \<and> wellFormed s \<and> deployEnv s = deployEnv q)
      \<longrightarrow> validateDeploymentsInfo (q # ss) = Inr ())"
  using rejects_two_primaries[of plan] rejects_mismatch[of s plan' p]
    accepts_skipped[of t] accepts_primary_secondaries[of q ss]
  by blast

theorem validateDeploymentsInfo_rejects_accepts_witness:
  "2 \<le> length (filter (\<lambda>t. type t = Str ''primary'')
          [deploymentInfoPerTarget_next, deploymentInfoPerTarget_rc])
   \<and> (\<exists>e. validateDeploymentsInfo [deploymentInfoPerTarget_next, deploymentInfoPerTarget_rc] = Inl e)
   \<and> deployEnv deploymentInfoPerTarget_noActiveRc \<noteq> deployEnv deploymentInfoPerTarget_next
   \<and> (\<exists>e. validateDeploymentsInfo
             [deploymentInfoPerTarget_next, deploymentInfoPerTarget_noActiveRc] = Inl e)
   \<and> wellFormed (skipDeployment reasonPullRequest)
   \<and> validateDeploymentsInfo [skipDeployment reasonPullRequest] = Inr ()
   \<and> wellFormed (deploymentInfoPerTarget_stable exampleEngine (Fin 3))
   \<and> wellFormed deploymentInfoPerTarget_noActiveRc
   \<and> validateDeploymentsInfo
        [deploymentInfoPerTarget_stable exampleEngine (Fin 3), deploymentInfoPerTarget_noActiveRc] = Inr ()"
proof -
  have w1: "wellFormed (skipDeployment reasonPullRequest)"
    by (simp add: wellFormed_def skipDeployment_def knownTargetTypes_def missingProperties_def
        requiredPropertiesForSkipped_def propIsUndefined_def)
  have w2: "wellFormed (deploymentInfoPerTarget_stable exampleEngine (Fin 3))"
    by (simp add: wellFormed_def deploymentInfoPerTarget_stable_def knownTargetTypes_def
        missingProperties_def requiredPropertiesForNonSkipped_def propIsUndefined_def)
  have w3: "wellFormed deploymentInfoPerTarget_noActiveRc"
    by (simp add: wellFormed_def deploymentInfoPerTarget_noActiveRc_def knownTargetTypes_def
        missingProperties_def requiredPropertiesForNonSkipped_def propIsUndefined_def)
  have a: "2 \<le> length (filter (\<lambda>t. type t = Str ''primary'')
          [deploymentInfoPerTarget_next, deploymentInfoPerTarget_rc])"
    by (simp add: deploymentInfoPerTarget_next_def deploymentInfoPerTarget_rc_def)
  have b: "deployEnv deploymentInfoPerTarget_noActiveRc \<noteq> deployEnv deploymentInfoPerTarget_next"
    by (simp add: deploymentInfoPerTarget_next_def deploymentInfoPerTarget_noActiveRc_def)
  have t1: "type deploymentInfoPerTarget_noActiveRc = Str ''secondary''"
    by (simp add: deploymentInfoPerTarget_noActiveRc_def)
  have t2: "type deploymentInfoPerTarget_next = Str ''primary''"
    by (simp add: deploymentInfoPerTarget_next_def)
  have t3: "type (skipDeployment reasonPullRequest) = Str ''skipped''"
    by (simp add: skipDeployment_def)
  have t4: "type (deploymentInfoPerTarget_stable exampleEngine (Fin 3)) = Str ''primary''"
    "deployEnv deploymentInfoPerTarget_noActiveRc = deployEnv (deploymentInfoPerTarget_stable exampleEngine (Fin 3))"
    by (simp_all add: deploymentInfoPerTarget_stable_def deploymentInfoPerTarget_noActiveRc_def)
  show ?thesis
    using validateDeploymentsInfo_rejects_accepts
      [of "[deploymentInfoPerTarget_next, deploymentInfoPerTarget_rc]"
          deploymentInfoPerTarget_noActiveRc
          "[deploymentInfoPerTarget_next, deploymentInfoPerTarget_noActiveRc]"
          deploymentInfoPerTarget_next
          "skipDeployment reasonPullRequest"
          "deploymentInfoPerTarget_stable exampleEngine (Fin 3)"
          "[deploymentInfoPerTarget_noActiveRc]"]
      w1 w2 w3 a b t1 t2 t3 t4
    by simp
qed

subsection \<open>C7: the latest commit of a branch that does not exist\<close>

text \<open>
  As the claim is stated, it fails: when \<^verbatim>\<open>git ls-remote\<close> prints nothing, the trimmed output
  is the empty string, its \<^verbatim>\<open>split\<close> is the array of one empty string, and \<open>getLatestCommit\<close>
  returns the empty string. Nothing is thrown.
\<close>

theorem getLatestCommit_missing_branch_counterexample:
  "exampleRemote (lsRemoteCmd NG_REMOTE_URL ''no-such-branch'') = Some []
   \<and> valueOf (getRemoteRefs exampleRemote Map.empty ''no-such-branch'' defaultOptions) = Inr [[]]
   \<and> valueOf (getLatestCommit exampleRemote Map.empty ''no-such-branch'' defaultOptions) = Inr []"
  by code_simp

text \<open>
  Claim C7, amended. For every branch name for which the remote query prints nothing but
  white space, and is not answered from the cache, \<open>getLatestCommit\<close> returns the empty
  string as the commit, and caches the array of one empty string; it does not fail.
\<close>

theorem getLatestCommit_missing_branch:
  assumes "exec (lsRemoteCmd (remote opts) branchName) = Some out"
    and "trim out = []"
    and "\<not> retrieveFromCache opts \<or> cache (lsRemoteCmd (remote opts) branchName) = None"
  shows "getLatestCommit exec cache branchName opts =
           Inr ([], cache(lsRemoteCmd (remote opts) branchName \<mapsto> [[]]))"
proof -
  have "getRemoteRefs exec cache branchName opts =
    Inr (splitOn CHR 0x0A (trim out),
         cache(lsRemoteCmd (remote opts) branchName \<mapsto> splitOn CHR 0x0A (trim out)))"
    using assms(1,3) by (rule getRemoteRefs_miss[where cache = cache])
  then show ?thesis
    unfolding getLatestCommit_def by (simp add: assms(2))
qed

theorem getLatestCommit_missing_branch_witness:
  "exampleRemote (lsRemoteCmd (remote defaultOptions) ''no-such-branch'') = Some []
   \<and> trim [] = []
   \<and> getLatestCommit exampleRemote Map.empty ''no-such-branch'' defaultOptions =
       Inr ([], [lsRemoteCmd (remote defaultOptions) ''no-such-branch'' \<mapsto> [[]]])"
proof -
  have e: "exampleRemote (lsRemoteCmd (remote defaultOptions) ''no-such-branch'') = Some []"
    by code_simp
  have t: "trim [] = []" by (simp add: trim_def)
  have "getLatestCommit exampleRemote Map.empty ''no-such-branch'' defaultOptions =
       Inr ([], [lsRemoteCmd (remote defaultOptions) ''no-such-branch'' \<mapsto> [[]]])"
    using e t by (rule getLatestCommit_missing_branch[where cache = Map.empty]) simp
  with e t show ?thesis by blast
qed

subsection \<open>C8: a repeated query is answered from the cache\<close>

text \<open>
  Claim C8. When the cache is not bypassed, a second call of \<open>getRemoteRefs\<close>,
  \<open>getLatestCommit\<close> or \<open>getMostRecentMinorBranch\<close> with the same query, on the cache the first
  call left, returns what the first call returned, whatever the remote answers by then (the
  second shell is arbitrary: it is not consulted), and leaves the cache as it is.
\<close>

theorem getRemoteRefs_idempotent:
  assumes "retrieveFromCache opts"
  shows "(getRemoteRefs exec1 cache refOrPattern opts = Inr (result, cache1) \<longrightarrow>
            getRemoteRefs exec2 cache1 refOrPattern opts = Inr (result, cache1))
       \<and> (getLatestCommit exec1 cache refOrPattern opts = Inr (commit, cache2) \<longrightarrow>
            getLatestCommit exec2 cache2 refOrPattern opts = Inr (commit, cache2))
       \<and> (getMostRecentMinorBranch js exec1 cache major opts = Inr (branch, cache3) \<longrightarrow>
            getMostRecentMinorBranch js exec2 cache3 major opts = Inr (branch, cache3))"
proof (intro conjI impI)
  assume "getRemoteRefs exec1 cache refOrPattern opts = Inr (result, cache1)"
  then show "getRemoteRefs exec2 cache1 refOrPattern opts = Inr (result, cache1)"
    by (rule getRemoteRefs_twice[OF assms])
next
  assume a: "getLatestCommit exec1 cache refOrPattern opts = Inr (commit, cache2)"
  then obtain line rest where
    r: "getRemoteRefs exec1 cache refOrPattern opts = Inr (line # rest, cache2)"
    and c: "commit = take 40 line"
    unfolding getLatestCommit_def by (auto split: sum.splits list.splits)
  show "getLatestCommit exec2 cache2 refOrPattern opts = Inr (commit, cache2)"
    unfolding getLatestCommit_def
    by (simp only: getRemoteRefs_twice[OF assms r] c sum.case prod.case list.case)
next
  assume a: "getMostRecentMinorBranch js exec1 cache major opts = Inr (branch, cache3)"
  then obtain ls where
    r: "getRemoteRefs exec1 cache (''refs/heads/'' @ major @ ''.*.x'') opts = Inr (ls, cache3)"
    and b: "branch = pop (sortBy (compareVersions js) (versionBranches ls))"
    unfolding getMostRecentMinorBranch_def by (auto split: sum.splits)
  show "getMostRecentMinorBranch js exec2 cache3 major opts = Inr (branch, cache3)"
    unfolding getMostRecentMinorBranch_def
    by (simp only: getRemoteRefs_twice[OF assms r] b sum.case prod.case)
qed

theorem getRemoteRefs_idempotent_witness:
  "retrieveFromCache defaultOptions
   \<and> (\<exists>r c. getRemoteRefs exampleRemote Map.empty ''master'' defaultOptions = Inr (r, c)
          \<and> getRemoteRefs failingRemote c ''master'' defaultOptions = Inr (r, c))
   \<and> (\<exists>c. getLatestCommit exampleRemote Map.empty ''master'' defaultOptions
             = Inr (exampleCommit, c)
          \<and> getLatestCommit failingRemote c ''master'' defaultOptions = Inr (exampleCommit, c))
   \<and> (\<exists>c. getMostRecentMinorBranch exampleEngine exampleRemote Map.empty ''2'' defaultOptions
             = Inr (Str ''2.10.x'', c)
          \<and> getMostRecentMinorBranch exampleEngine failingRemote c ''2'' defaultOptions
             = Inr (Str ''2.10.x'', c))
   \<and> getLatestCommit failingRemote Map.empty ''master'' defaultOptions = Inl ExecError"
proof -
  have o: "retrieveFromCache defaultOptions" by (simp add: defaultOptions_def)
  note inst = getRemoteRefs_idempotent[OF o, where ?exec1.0 = exampleRemote
      and ?exec2.0 = failingRemote and cache = Map.empty
      and js = exampleEngine]
  have "valueOf (getRemoteRefs exampleRemote Map.empty ''master'' defaultOptions)
          = Inr [refLine ''master'']"
    by code_simp
  then obtain c0 where
    c0: "getRemoteRefs exampleRemote Map.empty ''master'' defaultOptions
          = Inr ([refLine ''master''], c0)"
    by (auto dest: valueOf_Inr)
  have r0: "getRemoteRefs failingRemote c0 ''master'' defaultOptions
          = Inr ([refLine ''master''], c0)"
    using inst[THEN conjunct1, of "''master''" "[refLine ''master'']" c0] c0 by simp
  have "valueOf (getLatestCommit exampleRemote Map.empty ''master'' defaultOptions)
          = Inr exampleCommit"
    by code_simp
  then obtain c where
    c: "getLatestCommit exampleRemote Map.empty ''master'' defaultOptions = Inr (exampleCommit, c)"
    by (auto dest: valueOf_Inr)
  have r1: "getLatestCommit failingRemote c ''master'' defaultOptions = Inr (exampleCommit, c)"
    using inst[THEN conjunct2, THEN conjunct1, of "''master''" exampleCommit c] c by simp
  have "valueOf (getMostRecentMinorBranch exampleEngine exampleRemote Map.empty ''2'' defaultOptions)
          = Inr (Str ''2.10.x'')"
    by code_simp
  then obtain c2 where
    c2: "getMostRecentMinorBranch exampleEngine exampleRemote Map.empty ''2'' defaultOptions
          = Inr (Str ''2.10.x'', c2)"
    by (auto dest: valueOf_Inr)
  have r2: "getMostRecentMinorBranch exampleEngine failingRemote c2 ''2'' defaultOptions
          = Inr (Str ''2.10.x'', c2)"
    using inst[THEN conjunct2, THEN conjunct2, of "''2''" "Str ''2.10.x''" c2] c2 by simp
  have f: "getLatestCommit failingRemote Map.empty ''master'' defaultOptions = Inl ExecError"
    by (simp add: getLatestCommit_def getRemoteRefs_def failingRemote_def)
  from o c0 r0 c r1 c2 r2 f show ?thesis by blast
qed

subsection \<open>C9: every plan of the planner is valid\<close>

text \<open>
  Claim C9. Every plan that \<open>computeDeploymentsInfo\<close> returns is accepted by
  \<open>validateDeploymentsInfo\<close>: every descriptor has the properties required for its type, a
  plan with a skipped descriptor has exactly one element, and a plan without one starts with
  a primary descriptor that is followed by secondary descriptors of the same \<^verbatim>\<open>deployEnv\<close>
  only.
\<close>

theorem computeDeploymentsInfo_valid:
  assumes "computeDeploymentsInfo js exec cache v = Inr (plan, cache')"
  shows "validateDeploymentsInfo plan = Inr ()
       \<and> (\<forall>t\<in>set plan. wellFormed t)
       \<and> ((\<exists>t\<in>set plan. type t = Str ''skipped'') \<longrightarrow> length plan = 1)
       \<and> ((\<forall>t\<in>set plan. type t \<noteq> Str ''skipped'') \<longrightarrow>
            (\<exists>p ss. plan = p # ss \<and> type p = Str ''primary'' \<and>
               (\<forall>s\<in>set ss. type s = Str ''secondary'' \<and> deployEnv s = deployEnv p)))"
proof -
  consider r where "plan = [skipDeployment r]"
    | p where "plan = [p]" "type p = Str ''primary''" "wellFormed p"
    | m where "plan = [deploymentInfoPerTarget_stable js m, deploymentInfoPerTarget_noActiveRc]"
    using computeDeploymentsInfo_shapes[OF assms]
    by (auto simp: type_targets wellFormed_next wellFormed_rc wellFormed_stable wellFormed_archive)
  then show ?thesis
  proof cases
    case 1
    then show ?thesis
      using accepts_skipped[of "skipDeployment r"]
      by (simp add: wellFormed_skipDeployment type_targets)
  next
    case 2
    then show ?thesis
      using accepts_primary_secondaries[of p "[]"] by simp
  next
    case 3
    then show ?thesis
      using accepts_primary_secondaries
        [of "deploymentInfoPerTarget_stable js m" "[deploymentInfoPerTarget_noActiveRc]"]
      by (simp add: wellFormed_stable wellFormed_noActiveRc type_targets)
  qed
qed

theorem computeDeploymentsInfo_valid_witness:
  "valueOf (computeDeploymentsInfo exampleEngine exampleRemote Map.empty (exampleInput ''3.0.x'' ''3.0.x''))
     = Inr [deploymentInfoPerTarget_stable exampleEngine (Fin 3), deploymentInfoPerTarget_noActiveRc]
   \<and> validateDeploymentsInfo
        [deploymentInfoPerTarget_stable exampleEngine (Fin 3), deploymentInfoPerTarget_noActiveRc] = Inr ()
   \<and> valueOf (computeDeploymentsInfo exampleEngine exampleRemote Map.empty
        ((exampleInput ''3.0.x'' ''3.0.x'')\<lparr>isPullRequest := True\<rparr>))
     = Inr [skipDeployment reasonPullRequest]
   \<and> validateDeploymentsInfo [skipDeployment reasonPullRequest] = Inr ()"
proof -
  have e: "valueOf (computeDeploymentsInfo exampleEngine exampleRemote Map.empty (exampleInput ''3.0.x'' ''3.0.x''))
     = Inr [deploymentInfoPerTarget_stable exampleEngine (Fin 3), deploymentInfoPerTarget_noActiveRc]"
    by code_simp
  then obtain c where "computeDeploymentsInfo exampleEngine exampleRemote Map.empty (exampleInput ''3.0.x'' ''3.0.x'')
     = Inr ([deploymentInfoPerTarget_stable exampleEngine (Fin 3), deploymentInfoPerTarget_noActiveRc], c)"
    by (auto dest: valueOf_Inr)
  from computeDeploymentsInfo_valid[OF this]
  have v1: "validateDeploymentsInfo
        [deploymentInfoPerTarget_stable exampleEngine (Fin 3), deploymentInfoPerTarget_noActiveRc] = Inr ()"
    by simp
  have s: "valueOf (computeDeploymentsInfo exampleEngine exampleRemote Map.empty
        ((exampleInput ''3.0.x'' ''3.0.x'')\<lparr>isPullRequest := True\<rparr>))
     = Inr [skipDeployment reasonPullRequest]"
    by code_simp
  then obtain c' where "computeDeploymentsInfo exampleEngine exampleRemote Map.empty
        ((exampleInput ''3.0.x'' ''3.0.x'')\<lparr>isPullRequest := True\<rparr>)
     = Inr ([skipDeployment reasonPullRequest], c')"
    by (auto dest: valueOf_Inr)
  from computeDeploymentsInfo_valid[OF this]
  have v2: "validateDeploymentsInfo [skipDeployment reasonPullRequest] = Inr ()"
    by simp
  from e v1 s v2 show ?thesis by blast
qed

subsection \<open>C10: a build without CI_PULL_REQUEST\<close>

text \<open>
  As the claim is stated, its consequence fails in a fork: the repository check comes
  before the pull-request check, so the plan is skipped with the reason of the repository
  check, not with the reason of a pull-request build.
\<close>

theorem computeInputVars_pull_request_counterexample:
  "CI_PULL_REQUEST (exampleEnv\<lparr>CI_REPO_OWNER := Some ''someone''\<rparr>) = None
   \<and> isPullRequest (computeInputVars (exampleEnv\<lparr>CI_REPO_OWNER := Some ''someone''\<rparr>))
   \<and> valueOf (computeDeploymentsInfo exampleEngine exampleRemote Map.empty
        (computeInputVars (exampleEnv\<lparr>CI_REPO_OWNER := Some ''someone''\<rparr>)))
      = Inr [skipDeployment reasonNotRepo]
   \<and> skipDeployment reasonNotRepo \<noteq> skipDeployment reasonPullRequest"
  by code_simp

text \<open>
  Claim C10, amended. \<open>computeInputVars\<close> sets \<^verbatim>\<open>isPullRequest\<close> for every value of
  \<^verbatim>\<open>CI_PULL_REQUEST\<close> other than the string \<^verbatim>\<open>false\<close>, also when the variable is not set. A run
  without the variable is therefore never a deployment: in the repository
  \<^verbatim>\<open>angular/angular\<close> its plan is the single skipped descriptor with the reason of a
  pull-request build, and in any other repository it is the single skipped descriptor with
  the reason of the repository check.
\<close>

theorem computeInputVars_pull_request:
  "(isPullRequest (computeInputVars e) \<longleftrightarrow> CI_PULL_REQUEST e \<noteq> Some ''false'')
   \<and> (CI_PULL_REQUEST e = None \<longrightarrow>
        isPullRequest (computeInputVars e)
        \<and> (template (envValue (CI_REPO_OWNER e)) @ ''/'' @ template (envValue (CI_REPO_NAME e))
              = REPO_SLUG \<longrightarrow>
            computeDeploymentsInfo js exec cache (computeInputVars e)
              = Inr ([skipDeployment reasonPullRequest], cache))
        \<and> (template (envValue (CI_REPO_OWNER e)) @ ''/'' @ template (envValue (CI_REPO_NAME e))
              \<noteq> REPO_SLUG \<longrightarrow>
            computeDeploymentsInfo js exec cache (computeInputVars e)
              = Inr ([skipDeployment reasonNotRepo], cache)))"
proof -
  have a: "isPullRequest (computeInputVars e) \<longleftrightarrow> CI_PULL_REQUEST e \<noteq> Some ''false''"
    by (cases "CI_PULL_REQUEST e") (simp_all add: computeInputVars_def)
  have o: "repoOwner (computeInputVars e) = envValue (CI_REPO_OWNER e)"
    and n: "repoName (computeInputVars e) = envValue (CI_REPO_NAME e)"
    by (simp_all add: computeInputVars_def)
  show ?thesis
    unfolding computeDeploymentsInfo_def o n a by simp
qed

theorem computeInputVars_pull_request_witness:
  "CI_PULL_REQUEST exampleEnv = None
   \<and> isPullRequest (computeInputVars exampleEnv)
   \<and> computeDeploymentsInfo exampleEngine exampleRemote Map.empty (computeInputVars exampleEnv)
       = Inr ([skipDeployment reasonPullRequest], Map.empty)
   \<and> computeDeploymentsInfo exampleEngine exampleRemote Map.empty
        (computeInputVars (exampleEnv\<lparr>CI_REPO_OWNER := Some ''someone''\<rparr>))
       = Inr ([skipDeployment reasonNotRepo], Map.empty)
   \<and> isPullRequest (computeInputVars (exampleEnv\<lparr>CI_PULL_REQUEST := Some ''true''\<rparr>))
   \<and> \<not> isPullRequest (computeInputVars (exampleEnv\<lparr>CI_PULL_REQUEST := Some ''false''\<rparr>))"
proof -
  have p: "CI_PULL_REQUEST exampleEnv = None" by (simp add: exampleEnv_def)
  have s: "template (envValue (CI_REPO_OWNER exampleEnv)) @ ''/'' @
      template (envValue (CI_REPO_NAME exampleEnv)) = REPO_SLUG"
    by (simp add: exampleEnv_def REPO_SLUG_def)
  have p': "CI_PULL_REQUEST (exampleEnv\<lparr>CI_REPO_OWNER := Some ''someone''\<rparr>) = None"
    by (simp add: exampleEnv_def)
  have s': "template (envValue (CI_REPO_OWNER (exampleEnv\<lparr>CI_REPO_OWNER := Some ''someone''\<rparr>)))
      @ ''/'' @ template (envValue (CI_REPO_NAME (exampleEnv\<lparr>CI_REPO_OWNER := Some ''someone''\<rparr>)))
      \<noteq> REPO_SLUG"
    by (simp add: exampleEnv_def REPO_SLUG_def)
  show ?thesis
    using computeInputVars_pull_request[where e = exampleEnv and js = exampleEngine
        and exec = exampleRemote and cache = Map.empty]
      computeInputVars_pull_request[where e = "exampleEnv\<lparr>CI_REPO_OWNER := Some ''someone''\<rparr>"
        and js = exampleEngine and exec = exampleRemote and cache = Map.empty]
      computeInputVars_pull_request[of "exampleEnv\<lparr>CI_PULL_REQUEST := Some ''true''\<rparr>"]
      computeInputVars_pull_request[of "exampleEnv\<lparr>CI_PULL_REQUEST := Some ''false''\<rparr>"]
      p s p' s'
    by simp
qed

end
